theory Spec2Isabelle
  imports Complex_Main
begin

section \<open>Python strings\<close>

text \<open>
  A Python \<open>str\<close> is a sequence of Unicode code points, so a character is modelled by
  its code point and a string by the list of them: \<open>len\<close> is \<open>length\<close>, and the
  full-width hyphen of the Japanese variant is the single character 65293 (U+FF0D).
  \<open>u\<close> turns an ASCII literal into such a string.
\<close>

type_synonym uchar = nat

type_synonym ustr = "uchar list"

definition u :: "string \<Rightarrow> ustr" where
  "u s = map of_char s"

text \<open>\<open>sub in s\<close>: \<open>sub\<close> occurs in \<open>s\<close> as a contiguous substring.\<close>

fun py_in :: "ustr \<Rightarrow> ustr \<Rightarrow> bool" where
  "py_in sub [] = (sub = [])"
| "py_in sub (c # cs) = (take (length sub) (c # cs) = sub \<or> py_in sub cs)"

text \<open>\<open>s.split(sep)\<close> for a one-character separator: never the empty list.\<close>

fun py_split :: "uchar \<Rightarrow> ustr \<Rightarrow> ustr list" where
  "py_split sep [] = [[]]"
| "py_split sep (c # cs) =
     (if c = sep then [] # py_split sep cs
      else (case py_split sep cs of [] \<Rightarrow> [[c]] | w # ws \<Rightarrow> (c # w) # ws))"

text \<open>\<open>xs[-1]\<close>: IndexError on the empty list is the value \<open>None\<close>.\<close>

definition py_last :: "'a list \<Rightarrow> 'a option" where
  "py_last xs = (if xs = [] then None else Some (last xs))"

text \<open>\<open>s.strip(ch)\<close> for a one-character argument.\<close>

definition py_strip :: "uchar \<Rightarrow> ustr \<Rightarrow> ustr" where
  "py_strip ch s = rev (dropWhile (\<lambda>c. c = ch) (rev (dropWhile (\<lambda>c. c = ch) s)))"

text \<open>\<open>sep.join(parts)\<close> on a list of strings.\<close>

fun py_join :: "ustr \<Rightarrow> ustr list \<Rightarrow> ustr" where
  "py_join sep [] = []"
| "py_join sep [x] = x"
| "py_join sep (x # y # ys) = x @ sep @ py_join sep (y # ys)"

subsection \<open>\<open>int(s)\<close> on a string\<close>

text \<open>
  \<open>int\<close> in base 10 skips surrounding whitespace, takes an optional sign and then digits,
  where a single underscore may stand between two digits; anything else is a ValueError,
  here \<open>None\<close>. Two things are the interpreter's and are parameters:
  \<^item> \<open>dv\<close>: Python also accepts the decimal digits of other scripts; which code points
    above ASCII are decimal digits, and of what value, is a table of the Unicode database;
  \<^item> \<open>max_digits\<close>: the limit on the number of digits (\<open>sys.get_int_max_str_digits()\<close>, 4300
    unless it is changed; 0 when there is no limit, as in interpreters older than the
    limit). A string of more digits is a ValueError. The limit is never applied to 640
    digits or fewer.
\<close>

text \<open>
  The whitespace that \<open>int\<close> skips: tab to carriage return and the space, and the white
  space above ASCII. The separators 28 to 31 are not skipped.
\<close>

definition is_space :: "uchar \<Rightarrow> bool" where
  "is_space c \<longleftrightarrow>
     (9 \<le> c \<and> c \<le> 13) \<or> c = 32 \<or> c = 133 \<or> c = 160 \<or> c = 5760 \<or>
     (8192 \<le> c \<and> c \<le> 8202) \<or> c = 8232 \<or> c = 8233 \<or> c = 8239 \<or> c = 8287 \<or> c = 12288"

definition digit_val :: "(uchar \<Rightarrow> nat option) \<Rightarrow> uchar \<Rightarrow> nat option" where
  "digit_val dv c =
     (if c < 128 then (if 48 \<le> c \<and> c \<le> 57 then Some (c - 48) else None) else dv c)"

text \<open>The flag says whether the previous character was a digit.\<close>

fun int_digits :: "(uchar \<Rightarrow> nat option) \<Rightarrow> bool \<Rightarrow> nat \<Rightarrow> ustr \<Rightarrow> nat option" where
  "int_digits dv prev acc [] = (if prev then Some acc else None)"
| "int_digits dv prev acc (c # cs) =
     (case digit_val dv c of
        Some d \<Rightarrow> int_digits dv True (10 * acc + d) cs
      | None \<Rightarrow> (if c = 95 \<and> prev then int_digits dv False acc cs else None))"

text \<open>The number of digits of a string, and the limit exceeded by such a number.\<close>

definition digit_count :: "(uchar \<Rightarrow> nat option) \<Rightarrow> ustr \<Rightarrow> nat" where
  "digit_count dv s = length (filter (\<lambda>c. digit_val dv c \<noteq> None) s)"

definition over_limit :: "nat \<Rightarrow> nat \<Rightarrow> bool" where
  "over_limit max_digits n \<longleftrightarrow> 640 < n \<and> 0 < max_digits \<and> max_digits < n"

definition py_int :: "(uchar \<Rightarrow> nat option) \<Rightarrow> nat \<Rightarrow> ustr \<Rightarrow> int option" where
  "py_int dv max_digits s =
     (let t = rev (dropWhile is_space (rev (dropWhile is_space s)))
      in if over_limit max_digits (digit_count dv t) then None
         else case t of
           [] \<Rightarrow> None
         | c # cs \<Rightarrow>
             (if c = 43 then map_option int (int_digits dv False 0 cs)
              else if c = 45 then map_option (\<lambda>n. - int n) (int_digits dv False 0 cs)
              else map_option int (int_digits dv False 0 t)))"

text \<open>
  \<open>str(i)\<close> on an integer: its decimal digits, with a minus sign when negative. The
  integers that the program formats are identifiers that \<open>int\<close> gave and numbers of a
  parsed body, so their digits are within the interpreter's limit, beyond which \<open>str\<close>
  would raise.
\<close>

fun digits_of :: "nat \<Rightarrow> ustr" where
  "digits_of n = (if n < 10 then [48 + n] else digits_of (n div 10) @ [48 + n mod 10])"

declare digits_of.simps [simp del]

definition str_int :: "int \<Rightarrow> ustr" where
  "str_int i = (if i < 0 then 45 # digits_of (nat (- i)) else digits_of (nat i))"

section \<open>Utility functions\<close>

text \<open>
  \<open>re.sub(cls, repl, s)\<close> where the pattern \<open>cls\<close> is one character class: every
  character of the class is a match of length one, and each match is replaced by the
  string \<open>repl\<close> (which holds no backslash escape here).
\<close>

definition re_sub_class :: "uchar list \<Rightarrow> ustr \<Rightarrow> ustr \<Rightarrow> ustr" where
  "re_sub_class cls repl s = concat (map (\<lambda>c. if c \<in> set cls then repl else [c]) s)"

text \<open>
  The class \<^verbatim>\<open>[\\/:*?"<>|]\<close> of the raw pattern: backslash (92), slash (47), colon (58),
  asterisk (42), question mark (63), double quote (34), less-than (60), greater-than (62)
  and vertical bar (124).
\<close>

definition invalid_chars :: "uchar list" where
  "invalid_chars = [92, 47, 58, 42, 63, 34, 60, 62, 124]"

text \<open>
  The two files of the repository: the English and the Japanese variant. They differ in
  the replacement string of \<open>sanitize_filename\<close>, in the label of the title line of a saved
  file, in the texts of their messages and in \<open>main\<close>.
\<close>

datatype variant = EN | JA

fun placeholder :: "variant \<Rightarrow> ustr" where
  "placeholder EN = [45]"
| "placeholder JA = [65293]"

definition sanitize_filename :: "variant \<Rightarrow> ustr \<Rightarrow> ustr" where
  "sanitize_filename v filename = re_sub_class invalid_chars (placeholder v) filename"

section \<open>Parsed JSON and the Python operations on it\<close>

text \<open>
  \<open>response.json()\<close> gives Python values: \<open>None\<close>, booleans, integers, floats, strings,
  lists and dicts with string keys. Of a float the code only asks whether it is zero and
  whether it is greater than zero, so a float is its exact value, or an infinity or a NaN.
  A dict is an association list read with \<open>map_of\<close>.
\<close>

datatype pyfloat = FNum rat | FPosInf | FNegInf | FNaN

datatype json =
    JNull
  | JBool bool
  | JInt int
  | JFloat pyfloat
  | JStr ustr
  | JList "json list"
  | JObj "(ustr \<times> json) list"

datatype py_exc =
    AttributeError | TypeError | KeyError | ValueError | IndexError
  | RequestException | JSONDecodeError
  | OSError | UnicodeEncodeError | OverflowError

definition exc_bind :: "py_exc + 'a \<Rightarrow> ('a \<Rightarrow> py_exc + 'b) \<Rightarrow> py_exc + 'b" where
  "exc_bind m f = (case m of Inl e \<Rightarrow> Inl e | Inr x \<Rightarrow> f x)"

text \<open>Truth value of a value in a condition.\<close>

fun py_truthy :: "json \<Rightarrow> bool" where
  "py_truthy JNull = False"
| "py_truthy (JBool b) = b"
| "py_truthy (JInt n) = (n \<noteq> 0)"
| "py_truthy (JFloat f) = (f \<noteq> FNum 0)"
| "py_truthy (JStr s) = (s \<noteq> [])"
| "py_truthy (JList xs) = (xs \<noteq> [])"
| "py_truthy (JObj kvs) = (kvs \<noteq> [])"

text \<open>\<open>x.get(key, default)\<close>: only a dict has the method.\<close>

fun py_get :: "json \<Rightarrow> ustr \<Rightarrow> json \<Rightarrow> py_exc + json" where
  "py_get (JObj kvs) k d = Inr (case map_of kvs k of None \<Rightarrow> d | Some v \<Rightarrow> v)"
| "py_get _ k d = Inl AttributeError"

text \<open>\<open>x[key]\<close> for a string key: KeyError on a dict without it, TypeError on anything else.\<close>

fun py_index :: "json \<Rightarrow> ustr \<Rightarrow> py_exc + json" where
  "py_index (JObj kvs) k = (case map_of kvs k of None \<Rightarrow> Inl KeyError | Some v \<Rightarrow> Inr v)"
| "py_index _ k = Inl TypeError"

text \<open>
  \<open>for c in x\<close>: the elements of a list, the characters of a string, the keys of a dict;
  anything else is not iterable.
\<close>

fun py_iter :: "json \<Rightarrow> py_exc + json list" where
  "py_iter (JList xs) = Inr xs"
| "py_iter (JStr s) = Inr (map (\<lambda>c. JStr [c]) s)"
| "py_iter (JObj kvs) = Inr (map JStr (remdups (map fst kvs)))"
| "py_iter _ = Inl TypeError"

text \<open>\<open>x > 0\<close>: defined on numbers (a boolean is the integer 0 or 1), TypeError otherwise.\<close>

fun py_gt0 :: "json \<Rightarrow> py_exc + bool" where
  "py_gt0 (JInt n) = Inr (0 < n)"
| "py_gt0 (JBool b) = Inr b"
| "py_gt0 (JFloat (FNum q)) = Inr (0 < q)"
| "py_gt0 (JFloat FPosInf) = Inr True"
| "py_gt0 (JFloat FNegInf) = Inr False"
| "py_gt0 (JFloat FNaN) = Inr False"
| "py_gt0 _ = Inl TypeError"

text \<open>\<open>sep.join(parts)\<close>: TypeError unless every part is a string.\<close>

fun strs_of :: "json list \<Rightarrow> py_exc + ustr list" where
  "strs_of [] = Inr []"
| "strs_of (JStr s # xs) = exc_bind (strs_of xs) (\<lambda>ss. Inr (s # ss))"
| "strs_of (_ # xs) = Inl TypeError"

definition py_str_join :: "ustr \<Rightarrow> json list \<Rightarrow> py_exc + ustr" where
  "py_str_join sep parts = exc_bind (strs_of parts) (\<lambda>ss. Inr (py_join sep ss))"

text \<open>
  \<open>str(x)\<close>, as an f-string applies it: exact on \<open>None\<close>, booleans, integers and strings;
  the text that Python prints for a float, a list or a dict is the parameter \<open>repr\<close>.
\<close>

fun py_str :: "(json \<Rightarrow> ustr) \<Rightarrow> json \<Rightarrow> ustr" where
  "py_str repr JNull = u ''None''"
| "py_str repr (JBool b) = (if b then u ''True'' else u ''False'')"
| "py_str repr (JInt i) = str_int i"
| "py_str repr (JStr s) = s"
| "py_str repr x = repr x"

text \<open>\<open>sanitize_filename\<close> applied to a value: \<open>re.sub\<close> raises TypeError on a non-string.\<close>

fun sanitize_value :: "variant \<Rightarrow> json \<Rightarrow> py_exc + ustr" where
  "sanitize_value v (JStr s) = Inr (sanitize_filename v s)"
| "sanitize_value v _ = Inl TypeError"

section \<open>Core logic: the post fetcher\<close>

text \<open>
  What \<open>requests.get\<close>, \<open>raise_for_status\<close> and \<open>response.json()\<close> give for the API
  call: an exception, or the parsed body.
\<close>

datatype api_response = Raised py_exc | JsonBody json

text \<open>
  The message the call prints, and its effects on the file system: the directory it
  made (\<open>os.makedirs\<close>) and the file it opened for writing, with what it wrote into it.
  A path is the list of the components given to \<open>os.path.join\<close>. Printing is taken to
  succeed: standard output accepts every message.
\<close>

datatype log_msg =
    ErrRequest | ErrJson | ErrUnexpected py_exc | ErrNoPostData
  | SkipFree | SkipPaid | WarnNoText | OkSaved

record outcome =
  message :: log_msg
  made_dir :: "ustr list option"
  written :: "(ustr list \<times> ustr) option"

text \<open>The three \<open>except\<close> clauses, in their order.\<close>

definition handle_exc :: "py_exc \<Rightarrow> log_msg" where
  "handle_exc e =
     (if e = RequestException then ErrRequest
      else if e = JSONDecodeError then ErrJson
      else ErrUnexpected e)"

definition no_effect :: "log_msg \<Rightarrow> outcome" where
  "no_effect m = \<lparr>message = m, made_dir = None, written = None\<rparr>"

text \<open>
  The file system: what \<open>os.makedirs(path, exist_ok=True)\<close> and \<open>open(path, 'w')\<close> raise
  for a path, if anything (a name too long, a character the system refuses, a missing
  permission). Every exception it gives goes through the \<open>except\<close> clauses. Once a file is
  open, the system is taken to accept what is written and to close the file.
\<close>

record file_system =
  fs_makedirs :: "ustr list \<Rightarrow> py_exc option"
  fs_open :: "ustr list \<Rightarrow> py_exc option"

text \<open>
  \<open>f.write(x)\<close> on a file opened with \<open>encoding='utf-8'\<close>: TypeError unless \<open>x\<close> is a
  string, UnicodeEncodeError when the string holds a surrogate (55296 to 57343), which
  UTF-8 does not encode; otherwise the text is added to what was written.
\<close>

definition encodable :: "ustr \<Rightarrow> bool" where
  "encodable s = list_all (\<lambda>c. \<not> (55296 \<le> c \<and> c \<le> 57343)) s"

definition py_write :: "ustr \<Rightarrow> json \<Rightarrow> py_exc + ustr" where
  "py_write content x =
     (case x of
        JStr s \<Rightarrow> if encodable s then Inr (content @ s) else Inl UnicodeEncodeError
      | _ \<Rightarrow> Inl TypeError)"

text \<open>
  The writes of the \<open>with\<close> block, one after the other: what the file holds at the end,
  and the exception that ended the block early, if any.
\<close>

fun write_all :: "ustr \<Rightarrow> json list \<Rightarrow> ustr \<times> py_exc option" where
  "write_all content [] = (content, None)"
| "write_all content (x # xs) =
     (case py_write content x of
        Inl e \<Rightarrow> (content, Some e)
      | Inr content' \<Rightarrow> write_all content' xs)"

text \<open>
  One element of the generator under \<open>any\<close>:
  \<^verbatim>\<open>c.get("plan") and c["plan"].get("price", 0) > 0\<close>, as a truth value.
\<close>

definition segment_paid :: "json \<Rightarrow> py_exc + bool" where
  "segment_paid c =
     exc_bind (py_get c (u ''plan'') JNull) (\<lambda>p.
       if \<not> py_truthy p then Inr False
       else exc_bind (py_index c (u ''plan'')) (\<lambda>p'.
              exc_bind (py_get p' (u ''price'') (JInt 0)) py_gt0))"

text \<open>\<open>any\<close> stops at the first true element and never looks at the rest.\<close>

fun any_paid :: "json list \<Rightarrow> py_exc + bool" where
  "any_paid [] = Inr False"
| "any_paid (c # cs) =
     exc_bind (segment_paid c) (\<lambda>b. if b then Inr True else any_paid cs)"

definition is_paid_of :: "json \<Rightarrow> py_exc + bool" where
  "is_paid_of post_data =
     exc_bind (py_get post_data (u ''post_contents'') (JList [])) (\<lambda>x.
       exc_bind (py_iter x) any_paid)"

text \<open>\<^verbatim>\<open>[c["comment"] for c in ... if c.get("comment")]\<close>\<close>

fun content_parts :: "json list \<Rightarrow> py_exc + json list" where
  "content_parts [] = Inr []"
| "content_parts (c # cs) =
     exc_bind (py_get c (u ''comment'') JNull) (\<lambda>v.
       exc_bind (if py_truthy v then exc_bind (py_index c (u ''comment'')) (\<lambda>x. Inr [x])
                 else Inr []) (\<lambda>here.
         exc_bind (content_parts cs) (\<lambda>rest. Inr (here @ rest))))"

text \<open>\<^verbatim>\<open>if full_content is None and post_data.get(key): full_content = post_data[key]\<close>\<close>

definition or_field :: "json \<Rightarrow> ustr \<Rightarrow> json option \<Rightarrow> py_exc + json option" where
  "or_field post_data key full_content =
     (if full_content = None then
        exc_bind (py_get post_data key JNull) (\<lambda>v.
          if py_truthy v then exc_bind (py_index post_data key) (\<lambda>x. Inr (Some x))
          else Inr None)
      else Inr full_content)"

text \<open>The body of the post: \<open>full_content\<close> after the three attempts, \<open>None\<close> when all fail.\<close>

definition extract_full_content :: "json \<Rightarrow> py_exc + json option" where
  "extract_full_content post_data =
     exc_bind (py_get post_data (u ''post_contents'') JNull) (\<lambda>pc.
       exc_bind
         (if py_truthy pc then
            exc_bind (py_index post_data (u ''post_contents'')) (\<lambda>pc'.
              exc_bind (py_iter pc') (\<lambda>segs.
                exc_bind (content_parts segs) (\<lambda>parts.
                  if parts \<noteq> [] then
                    exc_bind (py_str_join [10, 10] parts) (\<lambda>s. Inr (Some (JStr s)))
                  else Inr None)))
          else Inr None) (\<lambda>fc.
         exc_bind (or_field post_data (u ''comment'') fc)
           (or_field post_data (u ''blog_comment''))))"

text \<open>
  The name of the fan club: the descriptor's display name, or \<open>fanclub_<id>\<close>. The default
  is built before \<open>get\<close> is called, whether it is needed or not.
\<close>

definition fanclub_name :: "(json \<Rightarrow> ustr) \<Rightarrow> json \<Rightarrow> py_exc + json" where
  "fanclub_name repr post_data =
     exc_bind (py_get post_data (u ''fanclub'') (JObj [])) (\<lambda>fc.
       exc_bind (py_get fc (u ''id'') JNull) (\<lambda>i.
         py_get fc (u ''fanclub_name_with_creator_name'')
           (JStr (u ''fanclub_'' @ py_str repr i))))"

fun title_label :: "variant \<Rightarrow> ustr" where
  "title_label EN = u ''Title: ''"
| "title_label JA = [12479, 12452, 12488, 12523, 58, 32]"

text \<open>The first three writes: the title line, the URL line and the rule with a blank line.\<close>

definition title_line :: "variant \<Rightarrow> ustr \<Rightarrow> ustr" where
  "title_line v title = title_label v @ title @ [10]"

definition url_line :: "int \<Rightarrow> ustr" where
  "url_line post_id = u ''URL: https://fantia.jp/posts/'' @ str_int post_id @ [10]"

definition rule_lines :: ustr where
  "rule_lines = replicate 40 61 @ [10, 10]"

definition file_header :: "variant \<Rightarrow> int \<Rightarrow> ustr \<Rightarrow> ustr" where
  "file_header v post_id title = title_line v title @ url_line post_id @ rule_lines"

text \<open>
  The end of the \<open>try\<close> block, from the fan club's name on. An exception leaves behind what
  was done before it: the directory once it is made, and the file once it is opened, with
  the writes that came before the one that failed.
\<close>

definition save_post ::
  "variant \<Rightarrow> (json \<Rightarrow> ustr) \<Rightarrow> file_system \<Rightarrow> ustr \<Rightarrow> int \<Rightarrow> json \<Rightarrow> json \<Rightarrow> json
     \<Rightarrow> outcome" where
  "save_post v repr fs root_output_dir post_id post_data title full_content =
     (case exc_bind (fanclub_name repr post_data) (sanitize_value v) of
        Inl e \<Rightarrow> no_effect (handle_exc e)
      | Inr sanitized_fanclub_name \<Rightarrow>
          (let output_subdir = [root_output_dir, sanitized_fanclub_name] in
           case fs_makedirs fs output_subdir of
             Some e \<Rightarrow> no_effect (handle_exc e)
           | None \<Rightarrow>
               (case exc_bind (sanitize_value v title) (\<lambda>s. Inr (s @ u ''.txt'')) of
                  Inl e \<Rightarrow>
                    \<lparr>message = handle_exc e, made_dir = Some output_subdir, written = None\<rparr>
                | Inr filename \<Rightarrow>
                    (let filepath = output_subdir @ [filename] in
                     case fs_open fs filepath of
                       Some e \<Rightarrow>
                         \<lparr>message = handle_exc e, made_dir = Some output_subdir,
                          written = None\<rparr>
                     | None \<Rightarrow>
                         (case write_all []
                                 [JStr (title_line v (py_str repr title)),
                                  JStr (url_line post_id), JStr rule_lines, full_content] of
                            (content, None) \<Rightarrow>
                              \<lparr>message = OkSaved, made_dir = Some output_subdir,
                               written = Some (filepath, content)\<rparr>
                          | (content, Some e) \<Rightarrow>
                              \<lparr>message = handle_exc e, made_dir = Some output_subdir,
                               written = Some (filepath, content)\<rparr>)))))"

text \<open>The \<open>try\<close> block after the scope filter: body extraction, then the file.\<close>

definition extract_and_save ::
  "variant \<Rightarrow> (json \<Rightarrow> ustr) \<Rightarrow> file_system \<Rightarrow> ustr \<Rightarrow> int \<Rightarrow> json \<Rightarrow> json \<Rightarrow> outcome" where
  "extract_and_save v repr fs root_output_dir post_id post_data title =
     (case extract_full_content post_data of
        Inl e \<Rightarrow> no_effect (handle_exc e)
      | Inr None \<Rightarrow> no_effect WarnNoText
      | Inr (Some full_content) \<Rightarrow>
          save_post v repr fs root_output_dir post_id post_data title full_content)"

text \<open>
  The whole call. \<open>repr\<close> is the parameter of \<open>py_str\<close> and \<open>fs\<close> the file system; the
  scope is the string of the configuration, which \<open>main\<close> has checked to be \<open>all\<close>, \<open>paid\<close>
  or \<open>free\<close>.
\<close>

definition scrape_and_save_post_api ::
  "variant \<Rightarrow> (json \<Rightarrow> ustr) \<Rightarrow> file_system \<Rightarrow> api_response \<Rightarrow> int \<Rightarrow> ustr \<Rightarrow> ustr
     \<Rightarrow> outcome" where
  "scrape_and_save_post_api v repr fs response post_id root_output_dir scope =
     (case response of
        Raised e \<Rightarrow> no_effect (handle_exc e)
      | JsonBody data \<Rightarrow>
          (case py_get data (u ''post'') JNull of
             Inl e \<Rightarrow> no_effect (handle_exc e)
           | Inr post_data \<Rightarrow>
               if \<not> py_truthy post_data then no_effect ErrNoPostData
               else
                 (case py_get post_data (u ''title'')
                         (JStr (u ''No Title '' @ str_int post_id)) of
                    Inl e \<Rightarrow> no_effect (handle_exc e)
                  | Inr title \<Rightarrow>
                      (case is_paid_of post_data of
                         Inl e \<Rightarrow> no_effect (handle_exc e)
                       | Inr is_paid \<Rightarrow>
                           if scope = u ''paid'' \<and> \<not> is_paid then no_effect SkipFree
                           else if scope = u ''free'' \<and> is_paid then no_effect SkipPaid
                           else extract_and_save v repr fs root_output_dir post_id
                                  post_data title))))"

section \<open>Core logic: the identifier collector\<close>

text \<open>
  What the collector sees of a listing page through BeautifulSoup, which is taken to
  parse every response text:
  \<^item> \<open>frontend_params\<close>: the result of \<^verbatim>\<open>soup.find('script', id='frontend-params')\<close>, \<open>None\<close>
    when the page has no such element, otherwise the element's \<open>.string\<close>, which is itself
    \<open>None\<close> when the element does not hold exactly one piece of text (an empty element);
  \<^item> \<open>links\<close>: for each anchor selected by \<^verbatim>\<open>div.module.post a.link-block\<close>, in document
    order, its \<open>href\<close> attribute if it has one;
  \<^item> \<open>next_page\<close>: the result of the pagination selector, \<open>None\<close> when nothing matches,
    otherwise the \<open>href\<close> attribute of the anchor if it has one.
\<close>

record listing_page =
  frontend_params :: "ustr option option"
  links :: "ustr option list"
  next_page :: "ustr option option"

datatype listing_response = FetchFailed | Page listing_page

text \<open>
  \<open>time.sleep\<close> raises ValueError on a negative delay or a NaN and OverflowError on a
  delay too large for the platform; nothing else.
\<close>

datatype sleep_exc = SleepValueError | SleepOverflowError

fun exc_of_sleep :: "sleep_exc \<Rightarrow> py_exc" where
  "exc_of_sleep SleepValueError = ValueError"
| "exc_of_sleep SleepOverflowError = OverflowError"

text \<open>
  The world outside the program:
  \<^item> \<open>requests_get\<close>: the answer to the request for page number \<open>n\<close> at a URL
    (\<open>FetchFailed\<close> is any \<open>RequestException\<close> of \<open>requests.get\<close> or \<open>raise_for_status\<close>);
  \<^item> \<open>urlparse_raises\<close>: \<open>urlparse\<close> of the standard library raises ValueError on the URL
    (an unbalanced bracket in the host part);
  \<^item> \<open>urljoin\<close>: \<open>urljoin\<close> of the standard library, \<open>None\<close> when it raises ValueError;
  \<^item> \<open>time_sleep\<close>: what \<open>time.sleep\<close> raises for a delay, if anything;
  \<^item> \<open>unicode_decimal\<close> and \<open>int_max_str_digits\<close>: the two parameters of \<open>int\<close>.
\<close>

record world =
  requests_get :: "nat \<Rightarrow> ustr \<Rightarrow> listing_response"
  urlparse_raises :: "ustr \<Rightarrow> bool"
  urljoin :: "ustr \<Rightarrow> ustr \<Rightarrow> ustr option"
  time_sleep :: "pyfloat \<Rightarrow> sleep_exc option"
  unicode_decimal :: "uchar \<Rightarrow> nat option"
  int_max_str_digits :: nat

text \<open>
  The body of the loop over the anchors of a page, for one anchor. ValueError and
  IndexError are both caught by \<open>continue\<close>, so they are the one value \<open>None\<close>.
\<close>

definition link_post_id ::
  "(uchar \<Rightarrow> nat option) \<Rightarrow> nat \<Rightarrow> ustr option \<Rightarrow> int option" where
  "link_post_id dv max_digits href =
     (case href of
        None \<Rightarrow> None
      | Some h \<Rightarrow>
          if h \<noteq> [] \<and> py_in (u ''/posts/'') h
          then Option.bind (py_last (py_split 47 h)) (py_int dv max_digits)
          else None)"

definition add_link ::
  "(uchar \<Rightarrow> nat option) \<Rightarrow> nat \<Rightarrow> int list \<Rightarrow> ustr option \<Rightarrow> int list" where
  "add_link dv max_digits post_ids href =
     (case link_post_id dv max_digits href of
        None \<Rightarrow> post_ids
      | Some post_id \<Rightarrow> if post_id \<in> set post_ids then post_ids else post_ids @ [post_id])"

text \<open>\<^verbatim>\<open>'"is_logged_in": false'\<close>\<close>

definition logged_out_marker :: ustr where
  "logged_out_marker = [34] @ u ''is_logged_in'' @ [34] @ u '': false''"

text \<open>
  The end of the \<open>try\<close> block for a page with anchors: the next URL, then the pause. The
  value is the exception that leaves the function (neither the ValueError of \<open>urljoin\<close> nor
  an exception of \<open>time.sleep\<close> is a \<open>RequestException\<close>), or the new \<open>current_url\<close>.
\<close>

definition next_current_url ::
  "world \<Rightarrow> ustr \<Rightarrow> pyfloat \<Rightarrow> listing_page \<Rightarrow> py_exc + ustr option" where
  "next_current_url w fanclub_url delay pg =
     exc_bind
       (case next_page pg of
          Some (Some href) \<Rightarrow>
            if href \<noteq> [] then
              (case urljoin w fanclub_url href of
                 None \<Rightarrow> Inl ValueError
               | Some url \<Rightarrow> Inr (Some url))
            else Inr None
        | _ \<Rightarrow> Inr None) (\<lambda>current_url.
       case time_sleep w delay of
         Some e \<Rightarrow> Inl (exc_of_sleep e)
       | None \<Rightarrow> Inr current_url)"

text \<open>
  The \<open>while\<close> loop. It runs as long as pages name a next page, so it is given fuel: one
  unit per page, and \<open>None\<close> when the fuel runs out before the loop
  ends. The result of a run that ends is the returned list, or the exception that leaves
  the function: only \<open>RequestException\<close> is caught.
\<close>

fun collect_loop ::
  "nat \<Rightarrow> world \<Rightarrow> ustr \<Rightarrow> pyfloat \<Rightarrow> int list \<Rightarrow> ustr option \<Rightarrow> nat
     \<Rightarrow> (py_exc + int list) option" where
  "collect_loop 0 w fanclub_url delay post_ids current_url page_num = None"
| "collect_loop (Suc fuel) w fanclub_url delay post_ids current_url page_num =
     (case current_url of
        None \<Rightarrow> Some (Inr post_ids)
      | Some url \<Rightarrow>
          if url = [] then Some (Inr post_ids)
          else
            (case requests_get w page_num url of
               FetchFailed \<Rightarrow> Some (Inr [])
             | Page pg \<Rightarrow>
                 (case frontend_params pg of
                    None \<Rightarrow> Some (Inr [])
                  | Some None \<Rightarrow> Some (Inl TypeError)
                  | Some (Some text) \<Rightarrow>
                      if py_in logged_out_marker text then Some (Inr [])
                      else if links pg = [] then Some (Inr post_ids)
                      else
                        (let post_ids' =
                               foldl (add_link (unicode_decimal w) (int_max_str_digits w))
                                 post_ids (links pg)
                         in case next_current_url w fanclub_url delay pg of
                              Inl e \<Rightarrow> Some (Inl e)
                            | Inr None \<Rightarrow> Some (Inr post_ids')
                            | Inr (Some url') \<Rightarrow>
                                collect_loop fuel w fanclub_url delay post_ids' (Some url')
                                  (page_num + 1)))))"

text \<open>
  The whole function: \<open>urlparse(fanclub_url)\<close> for the heading comes first, outside the
  \<open>try\<close> block.
\<close>

definition get_all_post_ids ::
  "nat \<Rightarrow> world \<Rightarrow> ustr \<Rightarrow> pyfloat \<Rightarrow> (py_exc + int list) option" where
  "get_all_post_ids fuel w fanclub_url delay =
     (if urlparse_raises w fanclub_url then Some (Inl ValueError)
      else collect_loop fuel w fanclub_url delay [] (Some fanclub_url) 1)"

section \<open>The orchestrator\<close>

text \<open>
  The body of the loop of \<open>main\<close> over the target URLs in the English variant, as the
  calls it makes and the messages it prints for one URL. \<open>collect\<close> is what
  \<open>get_all_post_ids\<close> returns or raises for the URL, \<open>url_path\<close> is \<open>urlparse(url).path\<close>
  (\<open>None\<close> when \<open>urlparse\<close> raises ValueError), \<open>dv\<close> and \<open>max_digits\<close> are the parameters of
  \<open>int\<close>, and \<open>pause\<close> is what \<open>time.sleep(delay)\<close> raises, if anything. An exception
  that no clause of the loop catches ends \<open>main\<close>; in the single-post branch ValueError
  and IndexError are caught, also those of the pause after the call of the fetcher.
\<close>

datatype main_step =
    CallCollector ustr | WarnNoIds | CallFetcher int
  | ErrBadPostId | WarnUnsupported | Abort py_exc

text \<open>
  The loop over the collected identifiers: a call of the fetcher and a pause for each, so
  that a pause that raises ends the loop, and \<open>main\<close>, after the first call.
\<close>

definition fetch_all :: "sleep_exc option \<Rightarrow> int list \<Rightarrow> main_step list" where
  "fetch_all pause post_ids =
     (case pause of
        None \<Rightarrow> map CallFetcher post_ids
      | Some e \<Rightarrow> map CallFetcher (take 1 post_ids) @ [Abort (exc_of_sleep e)])"

definition process_url_en ::
  "(ustr \<Rightarrow> py_exc + int list) \<Rightarrow> (ustr \<Rightarrow> ustr option) \<Rightarrow> (uchar \<Rightarrow> nat option) \<Rightarrow> nat
     \<Rightarrow> sleep_exc option \<Rightarrow> ustr \<Rightarrow> main_step list" where
  "process_url_en collect url_path dv max_digits pause url =
     (if py_in (u ''/fanclubs/'') url then
        CallCollector url #
          (case collect url of
             Inl e \<Rightarrow> [Abort e]
           | Inr post_ids \<Rightarrow>
               if post_ids = [] then [WarnNoIds] else fetch_all pause post_ids)
      else if py_in (u ''/posts/'') url then
        (case Option.bind (url_path url) (\<lambda>path.
                Option.bind (py_last (py_split 47 (py_strip 47 path))) (py_int dv max_digits)) of
           None \<Rightarrow> [ErrBadPostId]
         | Some post_id \<Rightarrow>
             CallFetcher post_id #
               (case pause of
                  None \<Rightarrow> []
                | Some SleepValueError \<Rightarrow> [ErrBadPostId]
                | Some SleepOverflowError \<Rightarrow> [Abort OverflowError]))
      else [WarnUnsupported])"

section \<open>Notions of the specification\<close>

subsection \<open>Post records\<close>

text \<open>
  A post record as the API delivers it: an object whose \<open>post_contents\<close>, if present, is a
  list of segment objects, a segment's \<open>comment\<close> being a string or null and its \<open>plan\<close>
  null or an object whose \<open>price\<close>, if present, is a number; the top-level \<open>comment\<close> and
  \<open>blog_comment\<close>, if present, are strings or null.
\<close>

fun field :: "json \<Rightarrow> ustr \<Rightarrow> json option" where
  "field (JObj kvs) k = map_of kvs k"
| "field _ k = None"

fun is_number :: "json \<Rightarrow> bool" where
  "is_number (JInt n) = True"
| "is_number (JFloat f) = True"
| "is_number _ = False"

fun is_text :: "json \<Rightarrow> bool" where
  "is_text JNull = True"
| "is_text (JStr s) = True"
| "is_text _ = False"

definition absent_or :: "(json \<Rightarrow> bool) \<Rightarrow> json option \<Rightarrow> bool" where
  "absent_or P x = (case x of None \<Rightarrow> True | Some v \<Rightarrow> P v)"

fun wf_plan :: "json \<Rightarrow> bool" where
  "wf_plan JNull = True"
| "wf_plan (JObj kvs) = absent_or is_number (map_of kvs (u ''price''))"
| "wf_plan _ = False"

fun wf_segment :: "json \<Rightarrow> bool" where
  "wf_segment (JObj kvs) =
     (absent_or is_text (map_of kvs (u ''comment'')) \<and>
      absent_or wf_plan (map_of kvs (u ''plan'')))"
| "wf_segment _ = False"

fun wf_contents :: "json \<Rightarrow> bool" where
  "wf_contents (JList cs) = list_all wf_segment cs"
| "wf_contents _ = False"

fun wf_post :: "json \<Rightarrow> bool" where
  "wf_post (JObj kvs) =
     (absent_or wf_contents (map_of kvs (u ''post_contents'')) \<and>
      absent_or is_text (map_of kvs (u ''comment'')) \<and>
      absent_or is_text (map_of kvs (u ''blog_comment'')))"
| "wf_post _ = False"

text \<open>The content segments of a post: none when \<open>post_contents\<close> is absent.\<close>

definition segments_of :: "json \<Rightarrow> json list" where
  "segments_of post = (case field post (u ''post_contents'') of Some (JList cs) \<Rightarrow> cs | _ \<Rightarrow> [])"

text \<open>A segment carries a plan whose price is greater than zero.\<close>

fun positive :: "json \<Rightarrow> bool" where
  "positive (JInt n) = (0 < n)"
| "positive (JFloat (FNum q)) = (0 < q)"
| "positive (JFloat FPosInf) = True"
| "positive _ = False"

definition plan_price :: "json \<Rightarrow> json option" where
  "plan_price c = (case field c (u ''plan'') of None \<Rightarrow> None | Some p \<Rightarrow> field p (u ''price''))"

definition carries_paid_plan :: "json \<Rightarrow> bool" where
  "carries_paid_plan c = (case plan_price c of None \<Rightarrow> False | Some v \<Rightarrow> positive v)"





text \<open>The title the call works with: the record's, or \<open>No Title <id>\<close>.\<close>

definition title_of :: "json \<Rightarrow> int \<Rightarrow> json" where
  "title_of post post_id =
     (case field post (u ''title'') of
        None \<Rightarrow> JStr (u ''No Title '' @ str_int post_id)
      | Some t \<Rightarrow> t)"

subsection \<open>Crawls\<close>

text \<open>A list without its repetitions, every element at the place of its first occurrence.\<close>

definition first_occurrences :: "'a list \<Rightarrow> 'a list" where
  "first_occurrences xs = rev (remdups (rev xs))"

text \<open>
  The page was fetched and shows the session as logged in: the marker element has a text
  and the text does not hold the logged-out marker.
\<close>

fun authenticated :: "listing_response \<Rightarrow> bool" where
  "authenticated FetchFailed = False"
| "authenticated (Page pg) =
     (case frontend_params pg of
        Some (Some text) \<Rightarrow> \<not> py_in logged_out_marker text
      | _ \<Rightarrow> False)"

text \<open>The identifiers of the anchors of a page, in document order, repetitions included.\<close>

fun response_ids ::
  "(uchar \<Rightarrow> nat option) \<Rightarrow> nat \<Rightarrow> listing_response \<Rightarrow> int list" where
  "response_ids dv max_digits FetchFailed = []"
| "response_ids dv max_digits (Page pg) = List.map_filter (link_post_id dv max_digits) (links pg)"

text \<open>The URL of the page after this one, if the crawl goes on.\<close>

definition next_url :: "world \<Rightarrow> ustr \<Rightarrow> pyfloat \<Rightarrow> listing_response \<Rightarrow> ustr option" where
  "next_url w base delay r =
     (case r of
        FetchFailed \<Rightarrow> None
      | Page pg \<Rightarrow>
          if authenticated r \<and> links pg \<noteq> [] then
            (case next_current_url w base delay pg of
               Inr (Some url) \<Rightarrow> Some url
             | _ \<Rightarrow> None)
          else None)"

text \<open>
  The sequence of listing pages of a crawl: the responses to the requests made from a
  URL on, in order, as far as the fuel goes.
\<close>

fun crawl_responses ::
  "nat \<Rightarrow> world \<Rightarrow> ustr \<Rightarrow> pyfloat \<Rightarrow> ustr option \<Rightarrow> nat \<Rightarrow> listing_response list" where
  "crawl_responses 0 w base delay cur n = []"
| "crawl_responses (Suc fuel) w base delay cur n =
     (case cur of
        None \<Rightarrow> []
      | Some url \<Rightarrow>
          if url = [] then []
          else requests_get w n url #
               crawl_responses fuel w base delay
                 (next_url w base delay (requests_get w n url)) (n + 1))"

text \<open>A string of the digits 0 to 9, and the number it writes in base 10.\<close>

definition is_ascii_digit :: "uchar \<Rightarrow> bool" where
  "is_ascii_digit c \<longleftrightarrow> 48 \<le> c \<and> c \<le> 57"

definition decimal_value :: "ustr \<Rightarrow> nat" where
  "decimal_value ds = foldl (\<lambda>a c. 10 * a + (c - 48)) 0 ds"

text \<open>What follows the last slash of a string: all of it when it has none.\<close>

definition trailing_segment :: "ustr \<Rightarrow> ustr" where
  "trailing_segment s = rev (takeWhile (\<lambda>c. c \<noteq> 47) (rev s))"

subsection \<open>Routes of the orchestrator\<close>

text \<open>The steps for a URL begin with a call of the collector on it.\<close>

fun collector_path :: "ustr \<Rightarrow> main_step list \<Rightarrow> bool" where
  "collector_path url (CallCollector x # steps) = (x = url)"
| "collector_path url _ = False"

text \<open>
  The steps are those of a single post: they begin with the call of the fetcher, or are
  the error message alone.
\<close>

fun single_post_path :: "main_step list \<Rightarrow> bool" where
  "single_post_path (CallFetcher i # steps) = True"
| "single_post_path [ErrBadPostId] = True"
| "single_post_path _ = False"

subsection \<open>The two variants\<close>

text \<open>
  Two outcomes that differ in directory and file names only: the same message, a
  directory made by both or by neither, and the same text written.
\<close>

definition differ_in_names_only :: "outcome \<Rightarrow> outcome \<Rightarrow> bool" where
  "differ_in_names_only en ja \<longleftrightarrow>
     message en = message ja \<and>
     (made_dir en = None) = (made_dir ja = None) \<and>
     map_option snd (written en) = map_option snd (written ja)"

text \<open>
  Two outcomes, of the English and of the Japanese variant, that agree up to
  localization: the same message; the directory of the same name, sanitized by each
  variant with its placeholder; the file of the same title, sanitized likewise, whose
  text is the variant's title label followed by the same rest (or nothing at all, when
  the first write failed).
\<close>

definition same_up_to_localization :: "ustr \<Rightarrow> outcome \<Rightarrow> outcome \<Rightarrow> bool" where
  "same_up_to_localization out_dir en ja \<longleftrightarrow>
     message en = message ja \<and>
     (made_dir en = None \<and> made_dir ja = None \<or>
      (\<exists>name. made_dir en = Some [out_dir, sanitize_filename EN name] \<and>
              made_dir ja = Some [out_dir, sanitize_filename JA name])) \<and>
     (written en = None \<and> written ja = None \<or>
      (\<exists>name title text_en text_ja.
         written en = Some ([out_dir, sanitize_filename EN name,
                             sanitize_filename EN title @ u ''.txt''], text_en) \<and>
         written ja = Some ([out_dir, sanitize_filename JA name,
                             sanitize_filename JA title @ u ''.txt''], text_ja) \<and>
         (text_en = [] \<and> text_ja = [] \<or>
          (\<exists>rest. text_en = title_label EN @ rest \<and> text_ja = title_label JA @ rest))))"

text \<open>
  The names that a call sanitizes: the name of the fan club and the title of the post of
  the response, when they are strings.
\<close>

definition raw_dir_name :: "(json \<Rightarrow> ustr) \<Rightarrow> api_response \<Rightarrow> ustr option" where
  "raw_dir_name repr response =
     (case response of
        JsonBody data \<Rightarrow>
          (case py_get data (u ''post'') JNull of
             Inr post \<Rightarrow>
               (case fanclub_name repr post of Inr (JStr name) \<Rightarrow> Some name | _ \<Rightarrow> None)
           | _ \<Rightarrow> None)
      | _ \<Rightarrow> None)"

definition raw_title :: "api_response \<Rightarrow> int \<Rightarrow> ustr option" where
  "raw_title response post_id =
     (case response of
        JsonBody data \<Rightarrow>
          (case py_get data (u ''post'') JNull of
             Inr post \<Rightarrow>
               (case py_get post (u ''title'') (JStr (u ''No Title '' @ str_int post_id)) of
                  Inr (JStr t) \<Rightarrow> Some t
                | _ \<Rightarrow> None)
           | _ \<Rightarrow> None)
      | _ \<Rightarrow> None)"

text \<open>
  The file system gives the two variants the same answer for these names: for the
  directory, sanitized by the one and by the other, and for the file in it.
\<close>

definition answers_alike ::
  "file_system \<Rightarrow> ustr \<Rightarrow> ustr option \<Rightarrow> ustr option \<Rightarrow> bool" where
  "answers_alike fs out_dir dir_name title \<longleftrightarrow>
     (\<forall>name. dir_name = Some name \<longrightarrow>
        fs_makedirs fs [out_dir, sanitize_filename EN name]
          = fs_makedirs fs [out_dir, sanitize_filename JA name]) \<and>
     (\<forall>name t. dir_name = Some name \<and> title = Some t \<longrightarrow>
        fs_open fs [out_dir, sanitize_filename EN name, sanitize_filename EN t @ u ''.txt'']
          = fs_open fs [out_dir, sanitize_filename JA name, sanitize_filename JA t @ u ''.txt''])"

section \<open>Examples\<close>

definition example_fanclub :: json where
  "example_fanclub =
     JObj [(u ''id'', JInt 7), (u ''fanclub_name_with_creator_name'', JStr (u ''Club: X''))]"

definition free_post :: json where
  "free_post =
     JObj [(u ''title'', JStr (u ''Part 1/2'')),
           (u ''post_contents'',
              JList [JObj [(u ''comment'', JStr (u ''A''))], JObj [(u ''comment'', JStr (u ''B''))]]),
           (u ''comment'', JStr (u ''top'')),
           (u ''fanclub'', example_fanclub)]"

definition paid_post :: json where
  "paid_post =
     JObj [(u ''title'', JStr (u ''Part 2'')),
           (u ''post_contents'',
              JList [JObj [(u ''comment'', JStr (u ''A''))],
                     JObj [(u ''comment'', JStr (u ''B'')), (u ''plan'', JObj [(u ''price'', JInt 500)])]]),
           (u ''fanclub'', example_fanclub)]"

definition broken_paid_post :: json where
  "broken_paid_post =
     JObj [(u ''post_contents'',
              JList [JObj [(u ''plan'', JObj [(u ''price'', JInt 500)])], JStr (u ''junk'')])]"

definition no_repr :: "json \<Rightarrow> ustr" where
  "no_repr x = u ''?''"

text \<open>A file system that refuses nothing.\<close>

definition reliable_fs :: file_system where
  "reliable_fs = \<lparr>fs_makedirs = (\<lambda>path. None), fs_open = (\<lambda>path. None)\<rparr>"

definition logged_in_text :: ustr where
  "logged_in_text = [123, 34] @ u ''is_logged_in'' @ [34] @ u '': true}''"

definition listing_url :: ustr where
  "listing_url = u ''https://fantia.jp/fanclubs/5/posts''"

definition page_one :: listing_page where
  "page_one =
     \<lparr>frontend_params = Some (Some logged_in_text),
      links = [Some (u ''/posts/10''), Some (u ''/posts/11'')],
      next_page = Some (Some (u ''?page=2''))\<rparr>"

definition page_two :: listing_page where
  "page_two =
     \<lparr>frontend_params = Some (Some logged_in_text),
      links = [Some (u ''/posts/10'')],
      next_page = None\<rparr>"

definition two_page_world :: world where
  "two_page_world =
     \<lparr>requests_get = (\<lambda>n url.
         if url = listing_url then Page page_one
         else if url = listing_url @ u ''?page=2'' then Page page_two
         else FetchFailed),
      urlparse_raises = (\<lambda>url. False),
      urljoin = (\<lambda>base href. Some (base @ href)),
      time_sleep = (\<lambda>delay. None),
      unicode_decimal = (\<lambda>c. None),
      int_max_str_digits = 4300\<rparr>"

text \<open>
  A file system whose names hold 255 bytes at most, in UTF-8, and a post whose title is
  249 letters and a question mark.
\<close>

definition utf8_length :: "ustr \<Rightarrow> nat" where
  "utf8_length s =
     sum_list (map (\<lambda>c. if c < 128 then 1 else if c < 2048 then 2
                          else if c < 65536 then 3 else 4) s)"

definition short_names_fs :: file_system where
  "short_names_fs =
     \<lparr>fs_makedirs = (\<lambda>path. if list_all (\<lambda>name. utf8_length name \<le> 255) path then None
                            else Some OSError),
      fs_open = (\<lambda>path. if list_all (\<lambda>name. utf8_length name \<le> 255) path then None
                        else Some OSError)\<rparr>"

definition long_title_post :: json where
  "long_title_post =
     JObj [(u ''title'', JStr (replicate 249 97 @ [63])),
           (u ''comment'', JStr (u ''Once'')),
           (u ''fanclub'', JObj [(u ''fanclub_name_with_creator_name'', JStr (u ''Club X''))])]"

text \<open>An interpreter that knows no decimal digits above ASCII.\<close>

definition ascii_only :: "uchar \<Rightarrow> nat option" where
  "ascii_only c = None"

text \<open>The delay of the default configuration, 1.5 seconds.\<close>

definition default_delay :: pyfloat where
  "default_delay = FNum (3 / 2)"

text \<open>A page whose marker element is empty: \<^verbatim>\<open><script id="frontend-params"></script>\<close>.\<close>

definition empty_marker_page :: listing_page where
  "empty_marker_page =
     \<lparr>frontend_params = Some None,
      links = [Some (u ''/posts/10'')],
      next_page = None\<rparr>"

definition empty_marker_world :: world where
  "empty_marker_world =
     \<lparr>requests_get = (\<lambda>n url. Page empty_marker_page),
      urlparse_raises = (\<lambda>url. False),
      urljoin = (\<lambda>base href. Some (base @ href)),
      time_sleep = (\<lambda>delay. None),
      unicode_decimal = (\<lambda>c. None),
      int_max_str_digits = 4300\<rparr>"

definition plain_post :: json where
  "plain_post =
     JObj [(u ''title'', JStr (u ''Part 3'')),
           (u ''comment'', JStr (u ''Once'')),
           (u ''fanclub'', JObj [(u ''fanclub_name_with_creator_name'', JStr (u ''Club X''))])]"

section \<open>Sanitization\<close>

lemma re_sub_class_single:
  "re_sub_class cls [p] s = map (\<lambda>c. if c \<in> set cls then p else c) s"
  by (induction s) (simp_all add: re_sub_class_def)

text \<open>
  C7. For every input string, \<open>sanitize_filename\<close> replaces each occurrence of the nine
  characters backslash, slash, colon, asterisk, question mark, double quote, less-than,
  greater-than and vertical bar with the one placeholder character (the hyphen 45 in the
  English variant, the full-width hyphen 65293 in the Japanese one), and leaves every
  other character unchanged; the output has the length of the input.
\<close>

theorem sanitize_filename_replaces_invalid:
  "sanitize_filename v s =
     map (\<lambda>c. if c \<in> {92, 47, 58, 42, 63, 34, 60, 62, 124}
              then (case v of EN \<Rightarrow> 45 | JA \<Rightarrow> 65293) else c) s
   \<and> length (sanitize_filename v s) = length s"
  by (cases v) (simp_all add: sanitize_filename_def invalid_chars_def re_sub_class_single)

text \<open>
  C9. \<open>sanitize_filename\<close> is idempotent in both variants: the placeholder is not one of
  the invalid characters, so a second pass changes nothing.
\<close>

theorem sanitize_filename_idempotent:
  "sanitize_filename v (sanitize_filename v s) = sanitize_filename v s"
  by (cases v) (simp_all add: sanitize_filename_def invalid_chars_def re_sub_class_single)

section \<open>Paid and free posts\<close>

lemma segment_paid_wf: "wf_segment c \<Longrightarrow> segment_paid c = Inr (carries_paid_plan c)"
proof (cases c)
  case (JObj kvs)
  assume wf: "wf_segment c"
  show ?thesis
  proof (cases "map_of kvs (u ''plan'')")
    case None
    then show ?thesis using JObj
      by (simp add: segment_paid_def carries_paid_plan_def plan_price_def exc_bind_def)
  next
    case (Some p)
    with wf JObj have wp: "wf_plan p" by (simp add: absent_or_def)
    show ?thesis
    proof (cases p)
      case (JObj pk)
      note pJ = this
      show ?thesis
      proof (cases "map_of pk (u ''price'')")
        case None
        then show ?thesis using \<open>c = JObj kvs\<close> Some pJ
          by (simp add: segment_paid_def carries_paid_plan_def plan_price_def exc_bind_def)
      next
        case (Some v)
        note sv = this
        with wp pJ have "is_number v" by (simp add: absent_or_def)
        then have "py_gt0 v = Inr (positive v)"
          by (cases v rule: positive.cases) simp_all
        moreover from sv have "pk \<noteq> []" by auto
        ultimately show ?thesis using \<open>c = JObj kvs\<close> \<open>map_of kvs (u ''plan'') = Some p\<close> pJ sv
          by (simp add: segment_paid_def carries_paid_plan_def plan_price_def exc_bind_def)
      qed
    qed (use wp \<open>c = JObj kvs\<close> Some in
          \<open>simp_all add: segment_paid_def carries_paid_plan_def plan_price_def exc_bind_def\<close>)
  qed
qed simp_all

lemma any_paid_wf: "list_all wf_segment cs \<Longrightarrow> any_paid cs = Inr (list_ex carries_paid_plan cs)"
  by (induction cs) (simp_all add: segment_paid_wf exc_bind_def)

lemma is_paid_of_wf:
  assumes "wf_post post"
  shows "is_paid_of post = Inr (list_ex carries_paid_plan (segments_of post))"
proof (cases post)
  case (JObj kvs)
  show ?thesis
  proof (cases "map_of kvs (u ''post_contents'')")
    case None
    then show ?thesis using JObj by (simp add: is_paid_of_def segments_of_def exc_bind_def)
  next
    case (Some pc)
    with assms JObj obtain cs where "pc = JList cs" "list_all wf_segment cs"
      by (cases pc) (simp_all add: absent_or_def)
    then show ?thesis using JObj Some
      by (simp add: is_paid_of_def segments_of_def exc_bind_def any_paid_wf)
  qed
qed (use assms in simp_all)

text \<open>
  C2. For every post record, \<open>is_paid\<close> is true if and only if some element of its
  \<open>post_contents\<close> list carries a plan whose price is greater than zero. In particular it
  is false when \<open>post_contents\<close> is absent or empty, when no segment has a plan, and when
  no plan has a price greater than zero.
\<close>

theorem is_paid_iff_paid_plan:
  assumes "wf_post post"
  shows "is_paid_of post = Inr (list_ex carries_paid_plan (segments_of post))
    \<and> (segments_of post = [] \<longrightarrow> is_paid_of post = Inr False)
    \<and> ((\<forall>c \<in> set (segments_of post). field c (u ''plan'') = None) \<longrightarrow> is_paid_of post = Inr False)
    \<and> ((\<forall>c \<in> set (segments_of post). \<forall>v. plan_price c = Some v \<longrightarrow> \<not> positive v)
          \<longrightarrow> is_paid_of post = Inr False)"
  unfolding is_paid_of_wf [OF assms]
  by (auto simp: list_ex_iff carries_paid_plan_def plan_price_def split: option.splits)

theorem is_paid_iff_paid_plan_witness:
  "wf_post paid_post \<and> is_paid_of paid_post = Inr True"
proof -
  have wf: "wf_post paid_post" by (simp add: paid_post_def u_def absent_or_def)
  have "list_ex carries_paid_plan (segments_of paid_post)"
    by (simp add: paid_post_def u_def segments_of_def carries_paid_plan_def plan_price_def)
  with is_paid_iff_paid_plan [OF wf] wf show ?thesis by simp
qed

section \<open>Body extraction\<close>









lemma py_get_title: "post = JObj kvs \<Longrightarrow>
   py_get post (u ''title'') (JStr (u ''No Title '' @ str_int post_id)) = Inr (title_of post post_id)"
  by (simp add: title_of_def split: option.splits)

text \<open>The four writes of a file whose body is a string.\<close>

lemma write_all_file:
  "write_all [] [JStr a, JStr b, JStr c, JStr d] =
     (if \<not> encodable a then ([], Some UnicodeEncodeError)
      else if \<not> encodable b then (a, Some UnicodeEncodeError)
      else if \<not> encodable c then (a @ b, Some UnicodeEncodeError)
      else if \<not> encodable d then (a @ b @ c, Some UnicodeEncodeError)
      else (a @ b @ c @ d, None))"
  by (simp add: py_write_def)



lemmas example_eval =
  u_def exc_bind_def is_paid_of_def segment_paid_def py_str_join_def
  extract_full_content_def or_field_def scrape_and_save_post_api_def extract_and_save_def
  save_post_def fanclub_name_def sanitize_filename_def re_sub_class_def invalid_chars_def
  file_header_def title_line_def url_line_def rule_lines_def py_write_def encodable_def
  list_all_iff no_effect_def handle_exc_def str_int_def digits_of.simps Let_def


section \<open>Scope filter\<close>

lemma is_paid_of_dict: "is_paid_of post = Inr paid \<Longrightarrow> \<exists>kvs. post = JObj kvs"
  by (cases post) (simp_all add: is_paid_of_def exc_bind_def)

text \<open>
  C3. For every post record whose classification is computed: with scope \<open>paid\<close> and a
  post that is not paid, and with scope \<open>free\<close> and a paid post, the call prints the skip
  message and makes neither directory nor file, whatever body extraction would have done;
  with scope \<open>all\<close> it goes on to body extraction, paid or not: an exception of the
  extraction is reported, a post without text gets the warning, and an extracted body is
  saved.
\<close>

theorem scope_filter:
  assumes "py_get data (u ''post'') JNull = Inr post" and "py_truthy post"
    and "is_paid_of post = Inr paid"
  shows "(scope = u ''paid'' \<and> \<not> paid \<longrightarrow>
            scrape_and_save_post_api v repr fs (JsonBody data) post_id out_dir scope
              = \<lparr>message = SkipFree, made_dir = None, written = None\<rparr>) \<and>
         (scope = u ''free'' \<and> paid \<longrightarrow>
            scrape_and_save_post_api v repr fs (JsonBody data) post_id out_dir scope
              = \<lparr>message = SkipPaid, made_dir = None, written = None\<rparr>) \<and>
         (scope = u ''all'' \<longrightarrow>
            (\<forall>e. extract_full_content post = Inl e \<longrightarrow>
               scrape_and_save_post_api v repr fs (JsonBody data) post_id out_dir scope
                 = \<lparr>message = handle_exc e, made_dir = None, written = None\<rparr>) \<and>
            (extract_full_content post = Inr None \<longrightarrow>
               scrape_and_save_post_api v repr fs (JsonBody data) post_id out_dir scope
                 = \<lparr>message = WarnNoText, made_dir = None, written = None\<rparr>) \<and>
            (\<forall>full_content. extract_full_content post = Inr (Some full_content) \<longrightarrow>
               scrape_and_save_post_api v repr fs (JsonBody data) post_id out_dir scope
                 = save_post v repr fs out_dir post_id post (title_of post post_id) full_content))"
proof -
  from is_paid_of_dict [OF assms(3)] obtain kvs where post: "post = JObj kvs" ..
  have neq: "u ''all'' \<noteq> u ''paid''" "u ''all'' \<noteq> u ''free''" "u ''paid'' \<noteq> u ''free''"
    by (simp_all add: u_def)
  show ?thesis using assms neq
    by (auto simp: scrape_and_save_post_api_def extract_and_save_def py_get_title [OF post]
        no_effect_def)
qed

theorem scope_filter_witness:
  "is_paid_of broken_paid_post = Inr True \<and>
   extract_full_content broken_paid_post = Inl AttributeError \<and>
   scrape_and_save_post_api EN no_repr reliable_fs (JsonBody (JObj [(u ''post'', broken_paid_post)]))
       10 (u ''novels'') (u ''free'')
     = \<lparr>message = SkipPaid, made_dir = None, written = None\<rparr> \<and>
   is_paid_of free_post = Inr False \<and>
   scrape_and_save_post_api EN no_repr reliable_fs (JsonBody (JObj [(u ''post'', free_post)]))
       10 (u ''novels'') (u ''paid'')
     = \<lparr>message = SkipFree, made_dir = None, written = None\<rparr> \<and>
   scrape_and_save_post_api EN no_repr reliable_fs (JsonBody (JObj [(u ''post'', free_post)]))
       10 (u ''novels'') (u ''all'')
     = \<lparr>message = OkSaved, made_dir = Some [u ''novels'', u ''Club- X''],
        written = Some ([u ''novels'', u ''Club- X'', u ''Part 1-2.txt''],
          u ''Title: Part 1/2'' @ [10] @ u ''URL: https://fantia.jp/posts/10'' @ [10] @
          replicate 40 61 @ [10, 10] @ [65, 10, 10, 66])\<rparr> \<and>
   is_paid_of paid_post = Inr True \<and>
   scrape_and_save_post_api EN no_repr reliable_fs (JsonBody (JObj [(u ''post'', paid_post)]))
       11 (u ''novels'') (u ''all'')
     = \<lparr>message = OkSaved, made_dir = Some [u ''novels'', u ''Club- X''],
        written = Some ([u ''novels'', u ''Club- X'', u ''Part 2.txt''],
          u ''Title: Part 2'' @ [10] @ u ''URL: https://fantia.jp/posts/11'' @ [10] @
          replicate 40 61 @ [10, 10] @ [65, 10, 10, 66])\<rparr>"
proof -
  have tr: "py_truthy broken_paid_post" "py_truthy free_post" "py_truthy paid_post"
    by (simp_all add: broken_paid_post_def free_post_def paid_post_def)
  have paid: "is_paid_of broken_paid_post = Inr True" "is_paid_of free_post = Inr False"
    "is_paid_of paid_post = Inr True"
    by (simp_all add: broken_paid_post_def free_post_def paid_post_def is_paid_of_def
        segment_paid_def exc_bind_def u_def)
  have ex: "extract_full_content broken_paid_post = Inl AttributeError"
    "extract_full_content free_post = Inr (Some (JStr [65, 10, 10, 66]))"
    "extract_full_content paid_post = Inr (Some (JStr [65, 10, 10, 66]))"
    by (simp_all add: broken_paid_post_def free_post_def paid_post_def extract_full_content_def
        or_field_def py_str_join_def exc_bind_def u_def)
  have save: "save_post EN no_repr reliable_fs (u ''novels'') 10 free_post (title_of free_post 10)
        (JStr [65, 10, 10, 66])
     = \<lparr>message = OkSaved, made_dir = Some [u ''novels'', u ''Club- X''],
        written = Some ([u ''novels'', u ''Club- X'', u ''Part 1-2.txt''],
          u ''Title: Part 1/2'' @ [10] @ u ''URL: https://fantia.jp/posts/10'' @ [10] @
          replicate 40 61 @ [10, 10] @ [65, 10, 10, 66])\<rparr>"
    "save_post EN no_repr reliable_fs (u ''novels'') 11 paid_post (title_of paid_post 11)
        (JStr [65, 10, 10, 66])
     = \<lparr>message = OkSaved, made_dir = Some [u ''novels'', u ''Club- X''],
        written = Some ([u ''novels'', u ''Club- X'', u ''Part 2.txt''],
          u ''Title: Part 2'' @ [10] @ u ''URL: https://fantia.jp/posts/11'' @ [10] @
          replicate 40 61 @ [10, 10] @ [65, 10, 10, 66])\<rparr>"
    by (simp_all add: example_eval free_post_def paid_post_def example_fanclub_def title_of_def
        reliable_fs_def no_repr_def)
  have a: "scrape_and_save_post_api EN no_repr reliable_fs
       (JsonBody (JObj [(u ''post'', broken_paid_post)])) 10 (u ''novels'') (u ''free'')
     = \<lparr>message = SkipPaid, made_dir = None, written = None\<rparr>"
    using scope_filter [of "JObj [(u ''post'', broken_paid_post)]" broken_paid_post True
        "u ''free''" EN no_repr reliable_fs 10 "u ''novels''"] tr paid
    by simp
  have b: "scrape_and_save_post_api EN no_repr reliable_fs
       (JsonBody (JObj [(u ''post'', free_post)])) 10 (u ''novels'') (u ''paid'')
     = \<lparr>message = SkipFree, made_dir = None, written = None\<rparr>"
    using scope_filter [of "JObj [(u ''post'', free_post)]" free_post False
        "u ''paid''" EN no_repr reliable_fs 10 "u ''novels''"] tr paid
    by simp
  have c: "scrape_and_save_post_api EN no_repr reliable_fs
       (JsonBody (JObj [(u ''post'', free_post)])) 10 (u ''novels'') (u ''all'')
     = save_post EN no_repr reliable_fs (u ''novels'') 10 free_post (title_of free_post 10)
        (JStr [65, 10, 10, 66])"
    using scope_filter [of "JObj [(u ''post'', free_post)]" free_post False
        "u ''all''" EN no_repr reliable_fs 10 "u ''novels''"] tr paid ex
    by simp
  have d: "scrape_and_save_post_api EN no_repr reliable_fs
       (JsonBody (JObj [(u ''post'', paid_post)])) 11 (u ''novels'') (u ''all'')
     = save_post EN no_repr reliable_fs (u ''novels'') 11 paid_post (title_of paid_post 11)
        (JStr [65, 10, 10, 66])"
    using scope_filter [of "JObj [(u ''post'', paid_post)]" paid_post True
        "u ''all''" EN no_repr reliable_fs 11 "u ''novels''"] tr paid ex
    by simp
  show ?thesis using a b c d paid ex save by simp
qed

section \<open>The collected identifiers\<close>

lemma first_occurrences_snoc:
  "first_occurrences (xs @ [x])
     = (if x \<in> set xs then first_occurrences xs else first_occurrences xs @ [x])"
  by (simp add: first_occurrences_def)

lemma set_first_occurrences [simp]: "set (first_occurrences xs) = set xs"
  by (simp add: first_occurrences_def)

lemma distinct_first_occurrences [simp]: "distinct (first_occurrences xs)"
  by (simp add: first_occurrences_def)

lemma first_occurrences_distinct: "distinct xs \<Longrightarrow> first_occurrences xs = xs"
  by (simp add: first_occurrences_def distinct_remdups_id)

lemma first_occurrences_absorb:
  "first_occurrences (first_occurrences xs @ ys) = first_occurrences (xs @ ys)"
proof (induction ys rule: rev_induct)
  case Nil
  show ?case by (simp add: first_occurrences_distinct)
next
  case (snoc y ys)
  have "first_occurrences ((first_occurrences xs @ ys) @ [y]) = first_occurrences ((xs @ ys) @ [y])"
    unfolding first_occurrences_snoc using snoc by simp
  then show ?case by simp
qed

lemma add_links_first_occurrences:
  "foldl (add_link dv max_digits) (first_occurrences xs) hrefs
     = first_occurrences (xs @ List.map_filter (link_post_id dv max_digits) hrefs)"
proof (induction hrefs rule: rev_induct)
  case Nil
  show ?case by (simp add: map_filter_simps)
next
  case (snoc h hs)
  let ?M = "List.map_filter (link_post_id dv max_digits) hs"
  show ?case
  proof (cases "link_post_id dv max_digits h")
    case None
    then show ?thesis using snoc by (simp add: add_link_def map_filter_def)
  next
    case (Some i)
    have m: "List.map_filter (link_post_id dv max_digits) (hs @ [h]) = ?M @ [i]"
      using Some by (simp add: map_filter_def)
    have "foldl (add_link dv max_digits) (first_occurrences xs) (hs @ [h])
        = add_link dv max_digits (first_occurrences (xs @ ?M)) h"
      using snoc by simp
    also have "\<dots> = first_occurrences ((xs @ ?M) @ [i])"
      unfolding first_occurrences_snoc using Some by (simp add: add_link_def)
    finally show ?thesis using m by simp
  qed
qed

text \<open>More fuel does not change the result of a run that ends.\<close>

lemma collect_loop_more_fuel:
  "collect_loop fuel w base delay post_ids cur n = Some r \<Longrightarrow>
   collect_loop (fuel + k) w base delay post_ids cur n = Some r"
proof (induction fuel arbitrary: post_ids cur n)
  case 0
  then show ?case by simp
next
  case (Suc fuel)
  from Suc.prems show ?case
    by (auto simp: Let_def dest: Suc.IH
        split: option.splits sum.splits listing_response.splits if_splits)
qed

lemma collect_loop_ids:
  "collect_loop fuel w base delay (first_occurrences acc) cur n = Some (Inr ids) \<Longrightarrow>
   ids = (if list_all authenticated (crawl_responses fuel w base delay cur n)
          then first_occurrences
                 (acc @ concat (map (response_ids (unicode_decimal w) (int_max_str_digits w))
                                  (crawl_responses fuel w base delay cur n)))
          else [])"
proof (induction fuel arbitrary: acc cur n)
  case 0
  then show ?case by simp
next
  case (Suc fuel)
  show ?case
  proof (cases cur)
    case None
    with Suc.prems show ?thesis by simp
  next
    case (Some url)
    show ?thesis
    proof (cases "url = []")
      case True
      with Suc.prems Some show ?thesis by simp
    next
      case False
      note url = Some False
      show ?thesis
      proof (cases "requests_get w n url")
        case FetchFailed
        with Suc.prems url show ?thesis by simp
      next
        case (Page pg)
        show ?thesis
        proof (cases "authenticated (Page pg)")
          case False
          with Suc.prems url Page show ?thesis
            by (auto split: option.splits if_splits)
        next
          case True
          then obtain marker where mk: "frontend_params pg = Some (Some marker)"
            and ok: "\<not> py_in logged_out_marker marker"
            by (auto split: option.splits)
          show ?thesis
          proof (cases "next_url w base delay (Page pg)")
            case None
            then have stop: "links pg = [] \<or> (\<forall>nxt. next_current_url w base delay pg \<noteq> Inr (Some nxt))"
              using True by (auto simp: next_url_def split: option.splits sum.splits if_splits)
            have rs: "crawl_responses (Suc fuel) w base delay cur n = [Page pg]"
              using url Page None by (cases fuel) simp_all
            from Suc.prems url Page mk ok stop
            have "ids = foldl (add_link (unicode_decimal w) (int_max_str_digits w))
                          (first_occurrences acc) (links pg)"
              by (auto simp: Let_def split: option.splits sum.splits if_splits)
            then show ?thesis using rs True
              by (simp add: add_links_first_occurrences)
          next
            case (Some nxt)
            then have nx: "next_current_url w base delay pg = Inr (Some nxt)" and ln: "links pg \<noteq> []"
              using True by (auto simp: next_url_def split: option.splits sum.splits if_splits)
            let ?M = "List.map_filter (link_post_id (unicode_decimal w) (int_max_str_digits w)) (links pg)"
            from Suc.prems url Page mk ok nx ln
            have "collect_loop fuel w base delay (first_occurrences (acc @ ?M)) (Some nxt) (n + 1)
                    = Some (Inr ids)"
              by (simp add: Let_def add_links_first_occurrences)
            from Suc.IH [OF this] show ?thesis
              using url Page Some True by simp
          qed
        qed
      qed
    qed
  qed
qed

text \<open>
  C5. For every sequence of listing pages, the list that \<open>get_all_post_ids\<close> returns has no
  duplicates and lists the identifiers in the order of their first occurrence over the
  pages of the crawl, also when an identifier is on several pages (and it is empty when a
  page of the crawl could not be fetched or shows the session as logged out). In
  particular, when page 1 links to the posts 10 and 11 and to a next page, and page 2 links
  to post 10 only and to no next page, the result is \<open>[10, 11]\<close>.
\<close>

theorem collected_ids_distinct_first_seen:
  "(get_all_post_ids fuel w url delay = Some (Inr ids) \<longrightarrow>
      distinct ids \<and>
      ids = (if list_all authenticated (crawl_responses fuel w url delay (Some url) 1)
             then first_occurrences
                    (concat (map (response_ids (unicode_decimal w) (int_max_str_digits w))
                       (crawl_responses fuel w url delay (Some url) 1)))
             else [])) \<and>
   get_all_post_ids 2 two_page_world listing_url default_delay = Some (Inr [10, 11])"
proof -
  have a: "distinct ids \<and>
      ids = (if list_all authenticated (crawl_responses fuel w url delay (Some url) 1)
             then first_occurrences
                    (concat (map (response_ids (unicode_decimal w) (int_max_str_digits w))
                       (crawl_responses fuel w url delay (Some url) 1)))
             else [])" if h: "get_all_post_ids fuel w url delay = Some (Inr ids)"
  proof -
    from h have "collect_loop fuel w url delay (first_occurrences []) (Some url) 1 = Some (Inr ids)"
      by (simp add: get_all_post_ids_def first_occurrences_def split: if_splits)
    from collect_loop_ids [OF this] show ?thesis by auto
  qed
  have b: "get_all_post_ids 2 two_page_world listing_url default_delay = Some (Inr [10, 11])"
    by (simp add: get_all_post_ids_def two_page_world_def page_one_def page_two_def listing_url_def
        logged_in_text_def logged_out_marker_def u_def numeral_2_eq_2 add_link_def link_post_id_def
        py_last_def py_int_def is_space_def digit_val_def digit_count_def over_limit_def
        next_current_url_def exc_bind_def default_delay_def)
  from a b show ?thesis by blast
qed

theorem collected_ids_distinct_first_seen_witness:
  "get_all_post_ids 2 two_page_world listing_url default_delay = Some (Inr [10, 11]) \<and>
   distinct [10, 11 :: int] \<and>
   list_all authenticated (crawl_responses 2 two_page_world listing_url default_delay (Some listing_url) 1) \<and>
   first_occurrences
     (concat (map (response_ids (unicode_decimal two_page_world) (int_max_str_digits two_page_world))
        (crawl_responses 2 two_page_world listing_url default_delay (Some listing_url) 1))) = [10, 11]"
  using collected_ids_distinct_first_seen [of 2 two_page_world listing_url default_delay "[10, 11]"]
  by (auto split: if_splits)

section \<open>Failure of the collection\<close>

lemma collector_fails_closed:
  assumes "url \<noteq> []"
    and "requests_get w n url = FetchFailed \<or>
         (\<exists>pg. requests_get w n url = Page pg \<and>
            (frontend_params pg = None \<or>
             (\<exists>t. frontend_params pg = Some (Some t) \<and> py_in logged_out_marker t)))"
  shows "collect_loop (Suc fuel) w base delay post_ids (Some url) n = Some (Inr [])"
  using assms by auto

text \<open>
  Other exceptions leave the function as well: the ValueError of \<open>urlparse\<close> before the
  loop, and, after a page with anchors, the ValueError of \<open>urljoin\<close> and what \<open>time.sleep\<close>
  raises for the delay.
\<close>

lemma collector_uncaught:
  "urlparse_raises w url \<Longrightarrow> get_all_post_ids fuel w url delay = Some (Inl ValueError)"
  "time_sleep w delay = Some e \<Longrightarrow> next_page pg = None \<Longrightarrow>
   next_current_url w url delay pg = Inl (exc_of_sleep e)"
  "next_page pg = Some (Some href) \<Longrightarrow> href \<noteq> [] \<Longrightarrow> urljoin w url href = None \<Longrightarrow>
   next_current_url w url delay pg = Inl ValueError"
  by (simp_all add: get_all_post_ids_def next_current_url_def exc_bind_def)

text \<open>
  C4. The collector is to return the empty list, and to raise nothing, when a page cannot
  be fetched or shows the session as logged out, on the first page or a later one, and
  whatever the marker element holds. It does so when the request fails, when the marker
  element is missing and when its text holds the logged-out marker
  (\<open>collector_fails_closed\<close>). But on a page whose marker element is empty the element's
  \<open>.string\<close> is \<open>None\<close>, the test \<open>in\<close> raises TypeError, and the exception leaves the
  function: only \<open>RequestException\<close> is caught.
\<close>

theorem empty_marker_raises:
  "get_all_post_ids 1 empty_marker_world listing_url default_delay = Some (Inl TypeError)"
  by (simp add: get_all_post_ids_def empty_marker_world_def empty_marker_page_def listing_url_def
      u_def)

section \<open>Identifiers of anchors\<close>

lemma py_split_no_sep: "sep \<notin> set s \<Longrightarrow> py_split sep s = [s]"
  by (induction s) simp_all

lemma py_split_last:
  "sep \<notin> set seg \<Longrightarrow>
   2 \<le> length (py_split sep (pre @ sep # seg)) \<and> last (py_split sep (pre @ sep # seg)) = seg"
proof (induction pre)
  case Nil
  then show ?case by (simp add: py_split_no_sep)
next
  case (Cons c pre)
  then obtain w ws where sp: "py_split sep (pre @ sep # seg) = w # ws" and "ws \<noteq> []"
    and "last ws = seg"
    by (cases "py_split sep (pre @ sep # seg)") (auto split: if_splits)
  then show ?case by (cases ws) auto
qed

lemma py_last_split: "py_last (py_split 47 s) = Some (trailing_segment s)"
proof (cases "47 \<in> set s")
  case False
  then have "takeWhile (\<lambda>c. c \<noteq> 47) (rev s) = rev s" by (auto simp: takeWhile_eq_all_conv)
  then have "trailing_segment s = s" unfolding trailing_segment_def by (simp only: rev_rev_ident)
  with False show ?thesis by (simp add: py_split_no_sep py_last_def)
next
  case True
  then obtain pre seg where s: "s = pre @ 47 # seg" and n: "47 \<notin> set seg"
    by (auto dest: split_list_last)
  have "takeWhile (\<lambda>c. c \<noteq> 47) (rev seg @ 47 # rev pre) = rev seg"
    using n by (auto simp: takeWhile_tail)
  then have "trailing_segment s = seg" by (simp add: trailing_segment_def s)
  moreover from py_split_last [OF n, of pre] have "py_split 47 s \<noteq> []" "last (py_split 47 s) = seg"
    unfolding s by auto
  ultimately show ?thesis by (simp add: py_last_def)
qed

lemma trailing_segment_after_slash:
  "47 \<notin> set seg \<Longrightarrow> trailing_segment (pre @ 47 # seg) = seg"
  using py_last_split [of "pre @ 47 # seg"] py_split_last [of 47 seg pre]
  by (simp add: py_last_def split: if_splits)

lemma py_in_prefix: "py_in sub (sub @ rest)"
proof (cases "sub @ rest")
  case Nil
  then show ?thesis by simp
next
  case (Cons c cs)
  have "take (length sub) (sub @ rest) = sub" by simp
  then show ?thesis unfolding Cons by simp
qed

lemma int_digits_ascii:
  "list_all is_ascii_digit ds \<Longrightarrow>
   int_digits dv p acc ds =
     (if ds = [] then (if p then Some acc else None)
      else Some (foldl (\<lambda>a c. 10 * a + (c - 48)) acc ds))"
  by (induction ds arbitrary: p acc) (auto simp: is_ascii_digit_def digit_val_def)

lemma digit_count_ascii: "list_all is_ascii_digit ds \<Longrightarrow> digit_count dv ds = length ds"
  by (induction ds) (auto simp: digit_count_def is_ascii_digit_def digit_val_def)

lemma ascii_digit_not_space: "is_ascii_digit c \<Longrightarrow> \<not> is_space c"
  by (auto simp: is_ascii_digit_def is_space_def)

lemma py_int_ascii_digits:
  assumes "ds \<noteq> []" and "list_all is_ascii_digit ds"
  shows "py_int dv max_digits ds =
           (if over_limit max_digits (length ds) then None else Some (int (decimal_value ds)))"
proof -
  from assms have ns: "\<forall>c \<in> set ds. \<not> is_space c"
    by (auto simp: list_all_iff ascii_digit_not_space)
  from assms(1) ns have "\<not> is_space (hd ds)" "\<not> is_space (last ds)" by simp_all
  with assms(1) have "dropWhile is_space ds = ds" "dropWhile is_space (rev ds) = rev ds"
    by (simp_all add: dropWhile_eq_self_iff hd_rev)
  then have t: "rev (dropWhile is_space (rev (dropWhile is_space ds))) = ds" by simp
  from assms obtain c cs where ds: "ds = c # cs" and c: "is_ascii_digit c" by (cases ds) auto
  from c have "c \<noteq> 43" "c \<noteq> 45" by (auto simp: is_ascii_digit_def)
  then show ?thesis
    unfolding py_int_def t Let_def digit_count_ascii [OF assms(2)] using assms(2) ds
    by (simp add: int_digits_ascii [OF assms(2), unfolded ds] decimal_value_def
        del: int_digits.simps foldl.simps)
qed

text \<open>
  An anchor whose trailing segment has 4301 digits, under the default limit of 4300: the
  segment is a string of digits, \<open>int\<close> raises ValueError, and the anchor is skipped.
\<close>

theorem long_identifier_skipped:
  "py_in (u ''/posts/'') (u ''/posts/'' @ replicate 4301 49) \<and>
   trailing_segment (u ''/posts/'' @ replicate 4301 49) = replicate 4301 49 \<and>
   list_all is_ascii_digit (replicate 4301 49) \<and>
   link_post_id ascii_only 4300 (Some (u ''/posts/'' @ replicate 4301 49)) = None \<and>
   add_link ascii_only 4300 [] (Some (u ''/posts/'' @ replicate 4301 49)) = []"
proof -
  have d: "list_all is_ascii_digit (replicate 4301 49)"
    by (simp add: list_all_iff is_ascii_digit_def)
  have ne: "replicate 4301 (49 :: nat) \<noteq> []" by simp
  have t: "trailing_segment (u ''/posts/'' @ replicate 4301 49) = replicate 4301 49"
    using trailing_segment_after_slash [of "replicate 4301 49" "u ''/posts''"]
    by (simp add: u_def)
  have "py_int ascii_only 4300 (replicate 4301 49) = None"
    by (simp add: py_int_ascii_digits [OF ne d] over_limit_def)
  then have l: "link_post_id ascii_only 4300 (Some (u ''/posts/'' @ replicate 4301 49)) = None"
    by (simp add: link_post_id_def py_last_split t)
  then have "add_link ascii_only 4300 [] (Some (u ''/posts/'' @ replicate 4301 49)) = []"
    by (simp add: add_link_def)
  with d t l py_in_prefix [of "u ''/posts/''" "replicate 4301 49"] show ?thesis by simp
qed

text \<open>
  C6, amended. For every anchor \<open>href\<close> that the collector processes: if it contains
  \<open>/posts/\<close> and its trailing path segment is a non-empty string of digits, not longer
  than the interpreter's limit on the digits of an integer conversion, the identifier
  extracted is the integer value of the segment, and it is appended unless it is in the
  list already; if the trailing segment does not parse as an integer, the anchor
  contributes nothing to the list.
\<close>

theorem link_identifier:
  "(py_in (u ''/posts/'') href \<and> trailing_segment href \<noteq> [] \<and>
      list_all is_ascii_digit (trailing_segment href) \<and>
      \<not> over_limit max_digits (length (trailing_segment href)) \<longrightarrow>
      link_post_id dv max_digits (Some href) = Some (int (decimal_value (trailing_segment href))) \<and>
      add_link dv max_digits post_ids (Some href) =
        (if int (decimal_value (trailing_segment href)) \<in> set post_ids then post_ids
         else post_ids @ [int (decimal_value (trailing_segment href))])) \<and>
   (py_int dv max_digits (trailing_segment href) = None \<longrightarrow>
      link_post_id dv max_digits (Some href) = None \<and>
      add_link dv max_digits post_ids (Some href) = post_ids \<and>
      foldl (add_link dv max_digits) post_ids (before @ Some href # after)
        = foldl (add_link dv max_digits) post_ids (before @ after))"
proof -
  have l: "link_post_id dv max_digits (Some href) =
      (if href \<noteq> [] \<and> py_in (u ''/posts/'') href
       then py_int dv max_digits (trailing_segment href) else None)"
    by (simp add: link_post_id_def py_last_split)
  have ne: "py_in (u ''/posts/'') href \<Longrightarrow> href \<noteq> []" by (auto simp: u_def)
  have none: "link_post_id dv max_digits (Some href) = None"
    if "py_int dv max_digits (trailing_segment href) = None"
    using that l by simp
  then have skip: "add_link dv max_digits ids (Some href) = ids"
    if "py_int dv max_digits (trailing_segment href) = None" for ids
    using that by (simp add: add_link_def)
  show ?thesis using l ne none skip
    by (auto simp: py_int_ascii_digits add_link_def)
qed

theorem link_identifier_witness:
  "link_post_id ascii_only 4300 (Some (u ''/posts/007'')) = Some 7 \<and>
   add_link ascii_only 4300 [3] (Some (u ''/posts/007'')) = [3, 7] \<and>
   py_int ascii_only 4300 (trailing_segment (u ''/posts/new'')) = None \<and>
   add_link ascii_only 4300 [3] (Some (u ''/posts/new'')) = [3] \<and>
   foldl (add_link ascii_only 4300) [3] ([Some (u ''/posts/4'')] @ Some (u ''/posts/new'') # [None])
     = foldl (add_link ascii_only 4300) [3] ([Some (u ''/posts/4'')] @ [None])"
proof -
  have p1: "py_in (u ''/posts/'') (u ''/posts/007'')" by (simp add: u_def)
  have t1: "trailing_segment (u ''/posts/007'') = [48, 48, 55]"
    by (simp add: trailing_segment_def u_def)
  have d1: "list_all is_ascii_digit [48, 48, 55]" by (simp add: is_ascii_digit_def)
  have v1: "decimal_value [48, 48, 55] = 7" by (simp add: decimal_value_def)
  have o1: "\<not> over_limit 4300 (length [48, 48, 55 :: nat])" by (simp add: over_limit_def)
  have t2: "trailing_segment (u ''/posts/new'') = [110, 101, 119]"
    by (simp add: trailing_segment_def u_def)
  have n2: "py_int ascii_only 4300 [110, 101, 119] = None"
    by (simp add: py_int_def is_space_def digit_val_def digit_count_def over_limit_def
        ascii_only_def)
  from link_identifier [of "u ''/posts/007''" 4300 ascii_only "[3]" "[]" "[]"] p1 d1 o1
  have a: "link_post_id ascii_only 4300 (Some (u ''/posts/007'')) = Some 7"
    "add_link ascii_only 4300 [3] (Some (u ''/posts/007'')) = [3, 7]"
    by (simp_all add: t1 v1)
  from link_identifier [of "u ''/posts/new''" 4300 ascii_only "[3]" "[Some (u ''/posts/4'')]" "[None]"]
    n2
  have b: "add_link ascii_only 4300 [3] (Some (u ''/posts/new'')) = [3]"
    "foldl (add_link ascii_only 4300) [3] ([Some (u ''/posts/4'')] @ Some (u ''/posts/new'') # [None])
     = foldl (add_link ascii_only 4300) [3] ([Some (u ''/posts/4'')] @ [None])"
    by (simp_all only: t2 simp_thms)
  from a b n2 t2 show ?thesis by simp
qed

section \<open>Classification of target URLs\<close>

text \<open>
  C10. The orchestrator of the English variant tests a target URL for the listing marker
  before the single-post marker: the collector is called on every URL that contains
  \<open>/fanclubs/\<close>, also when it contains \<open>/posts/\<close> as well; the single-post path is taken
  exactly for the URLs that contain \<open>/posts/\<close> and not \<open>/fanclubs/\<close>; every other URL is
  skipped with the warning of an unsupported format.
\<close>

theorem target_classification:
  "collector_path url (process_url_en collect url_path dv max_digits pause url)
     = py_in (u ''/fanclubs/'') url \<and>
   single_post_path (process_url_en collect url_path dv max_digits pause url)
     = (py_in (u ''/posts/'') url \<and> \<not> py_in (u ''/fanclubs/'') url) \<and>
   (process_url_en collect url_path dv max_digits pause url = [WarnUnsupported])
     = (\<not> py_in (u ''/fanclubs/'') url \<and> \<not> py_in (u ''/posts/'') url)"
  by (auto simp: process_url_en_def split: sum.splits option.splits sleep_exc.splits)

theorem target_classification_witness:
  "py_in (u ''/posts/'') (u ''https://fantia.jp/fanclubs/5/posts/'') \<and>
   collector_path (u ''https://fantia.jp/fanclubs/5/posts/'')
     (process_url_en (\<lambda>url. Inr [10, 11]) (\<lambda>url. Some (u ''/fanclubs/5/posts/'')) ascii_only
        4300 None (u ''https://fantia.jp/fanclubs/5/posts/'')) \<and>
   process_url_en (\<lambda>url. Inr [10, 11]) (\<lambda>url. Some (u ''/fanclubs/5/posts/'')) ascii_only
        4300 None (u ''https://fantia.jp/fanclubs/5/posts/'')
     = [CallCollector (u ''https://fantia.jp/fanclubs/5/posts/''), CallFetcher 10, CallFetcher 11]"
proof -
  have a: "py_in (u ''/fanclubs/'') (u ''https://fantia.jp/fanclubs/5/posts/'')" by (simp add: u_def)
  have b: "py_in (u ''/posts/'') (u ''https://fantia.jp/fanclubs/5/posts/'')" by (simp add: u_def)
  from target_classification [of "u ''https://fantia.jp/fanclubs/5/posts/''" "\<lambda>url. Inr [10, 11]"
      "\<lambda>url. Some (u ''/fanclubs/5/posts/'')" ascii_only 4300 None] a
  have c: "collector_path (u ''https://fantia.jp/fanclubs/5/posts/'')
     (process_url_en (\<lambda>url. Inr [10, 11]) (\<lambda>url. Some (u ''/fanclubs/5/posts/'')) ascii_only
        4300 None (u ''https://fantia.jp/fanclubs/5/posts/''))" by simp
  have d: "process_url_en (\<lambda>url. Inr [10, 11]) (\<lambda>url. Some (u ''/fanclubs/5/posts/'')) ascii_only
        4300 None (u ''https://fantia.jp/fanclubs/5/posts/'')
     = [CallCollector (u ''https://fantia.jp/fanclubs/5/posts/''), CallFetcher 10, CallFetcher 11]"
    using a by (simp add: process_url_en_def fetch_all_def)
  from b c d show ?thesis by simp
qed

section \<open>Equivalence of the two variants\<close>

lemma plain_post_saved:
  "scrape_and_save_post_api v no_repr reliable_fs (JsonBody (JObj [(u ''post'', plain_post)])) 10
       (u ''novels'') (u ''all'')
     = \<lparr>message = OkSaved, made_dir = Some [u ''novels'', u ''Club X''],
        written = Some ([u ''novels'', u ''Club X'', u ''Part 3.txt''],
          title_label v @ u ''Part 3'' @ [10] @ u ''URL: https://fantia.jp/posts/10'' @ [10] @
          replicate 40 61 @ [10, 10] @ u ''Once'')\<rparr>"
  by (cases v)
     (simp_all add: example_eval plain_post_def reliable_fs_def no_repr_def)

text \<open>
  The title line of a saved file is localized too: for a post whose names hold no invalid
  character the two variants write to the same path, and the texts they write differ.
\<close>

theorem variants_differ_in_title_line:
  "written (scrape_and_save_post_api EN no_repr reliable_fs
       (JsonBody (JObj [(u ''post'', plain_post)])) 10 (u ''novels'') (u ''all''))
     = Some ([u ''novels'', u ''Club X'', u ''Part 3.txt''],
          u ''Title: Part 3'' @ [10] @ u ''URL: https://fantia.jp/posts/10'' @ [10] @
          replicate 40 61 @ [10, 10] @ u ''Once'') \<and>
   written (scrape_and_save_post_api JA no_repr reliable_fs
       (JsonBody (JObj [(u ''post'', plain_post)])) 10 (u ''novels'') (u ''all''))
     = Some ([u ''novels'', u ''Club X'', u ''Part 3.txt''],
          [12479, 12452, 12488, 12523, 58, 32] @ u ''Part 3'' @ [10] @
          u ''URL: https://fantia.jp/posts/10'' @ [10] @ replicate 40 61 @ [10, 10] @ u ''Once'') \<and>
   \<not> differ_in_names_only
       (scrape_and_save_post_api EN no_repr reliable_fs
          (JsonBody (JObj [(u ''post'', plain_post)])) 10 (u ''novels'') (u ''all''))
       (scrape_and_save_post_api JA no_repr reliable_fs
          (JsonBody (JObj [(u ''post'', plain_post)])) 10 (u ''novels'') (u ''all''))"
  unfolding plain_post_saved by (simp add: differ_in_names_only_def u_def)

text \<open>
  Nor do two variants whose names differ always fare alike with the file system: on one
  whose names hold 255 bytes at most, a title of 249 letters and a question mark gives a
  file name of 254 bytes in the English variant, which is saved, and of 256 bytes in the
  Japanese variant, which is refused.
\<close>

lemma sanitize_long_title:
  "sanitize_filename v (replicate 249 97 @ [63]) = replicate 249 97 @ placeholder v"
  by (cases v) (simp_all add: sanitize_filename_def invalid_chars_def re_sub_class_single)

lemma variants_differ_on_long_title:
  "message (scrape_and_save_post_api EN no_repr short_names_fs
       (JsonBody (JObj [(u ''post'', long_title_post)])) 10 (u ''novels'') (u ''all'')) = OkSaved \<and>
   scrape_and_save_post_api JA no_repr short_names_fs
       (JsonBody (JObj [(u ''post'', long_title_post)])) 10 (u ''novels'') (u ''all'')
     = \<lparr>message = ErrUnexpected OSError, made_dir = Some [u ''novels'', u ''Club X''],
        written = None\<rparr>"
proof -
  have name: "sanitize_filename v (u ''Club X'') = u ''Club X''" for v
    by (cases v) (simp_all add: sanitize_filename_def invalid_chars_def re_sub_class_single u_def)
  have len: "utf8_length (u ''novels'') = 6" "utf8_length (u ''Club X'') = 6"
    "utf8_length (replicate 249 97 @ 45 # u ''.txt'') = 254"
    "utf8_length (replicate 249 97 @ 65293 # u ''.txt'') = 256"
    by (simp_all add: utf8_length_def u_def sum_list_replicate)
  have enc: "encodable (title_line EN (replicate 249 97 @ [63]))"
    "encodable (url_line 10)" "encodable rule_lines" "encodable (u ''Once'')"
    by (simp_all add: encodable_def list_all_iff title_line_def url_line_def rule_lines_def u_def
        str_int_def digits_of.simps)
  have pre: "scrape_and_save_post_api v no_repr short_names_fs
       (JsonBody (JObj [(u ''post'', long_title_post)])) 10 (u ''novels'') (u ''all'')
     = save_post v no_repr short_names_fs (u ''novels'') 10 long_title_post
         (JStr (replicate 249 97 @ [63])) (JStr (u ''Once''))" for v
    by (simp add: scrape_and_save_post_api_def extract_and_save_def extract_full_content_def
        or_field_def is_paid_of_def exc_bind_def long_title_post_def u_def)
  have fan: "fanclub_name no_repr long_title_post = Inr (JStr (u ''Club X''))"
    by (simp add: fanclub_name_def long_title_post_def exc_bind_def u_def)
  show ?thesis
    unfolding pre
    by (simp add: save_post_def fan exc_bind_def name sanitize_long_title short_names_fs_def len
        enc py_write_def handle_exc_def Let_def del: write_all.simps add: write_all_file)
qed

lemma localization_no_effect: "same_up_to_localization out_dir (no_effect m) (no_effect m)"
  by (simp add: same_up_to_localization_def no_effect_def)

lemma sanitize_value_cases:
  "(\<exists>s. x = JStr s \<and> (\<forall>v. sanitize_value v x = Inr (sanitize_filename v s))) \<or>
   (\<forall>v. sanitize_value v x = Inl TypeError)"
  by (cases x) simp_all

text \<open>What is written does not depend on what the file holds already.\<close>

lemma write_all_append:
  "write_all (p @ c) xs = (case write_all c xs of (c', e) \<Rightarrow> (p @ c', e))"
proof (induction xs arbitrary: c)
  case Nil
  show ?case by simp
next
  case (Cons x xs)
  show ?case
  proof (cases "py_write c x")
    case (Inl e)
    then have "py_write (p @ c) x = Inl e"
      by (auto simp: py_write_def split: json.splits if_splits)
    with Inl show ?thesis by simp
  next
    case (Inr c')
    then have "py_write (p @ c) x = Inr (p @ c')"
      by (auto simp: py_write_def split: json.splits if_splits)
    with Inr show ?thesis using Cons [of c'] by simp
  qed
qed

lemma write_all_title:
  "write_all [] (JStr (title_line v t) # xs) =
     (if encodable t then (case write_all (t @ [10]) xs of (c, e) \<Rightarrow> (title_label v @ c, e))
      else ([], Some UnicodeEncodeError))"
proof -
  have "encodable (title_line v t) = encodable t"
    by (cases v) (simp_all add: encodable_def title_line_def u_def)
  moreover have "write_all (title_line v t) xs
      = (case write_all (t @ [10]) xs of (c, e) \<Rightarrow> (title_label v @ c, e))"
    using write_all_append [of "title_label v" "t @ [10]" xs] by (simp add: title_line_def)
  ultimately show ?thesis by (simp add: py_write_def)
qed

lemma localization_save_post:
  assumes md: "\<And>name. fanclub_name repr post = Inr (JStr name) \<Longrightarrow>
      fs_makedirs fs [out_dir, sanitize_filename EN name]
        = fs_makedirs fs [out_dir, sanitize_filename JA name]"
    and op: "\<And>name t. fanclub_name repr post = Inr (JStr name) \<Longrightarrow> title = JStr t \<Longrightarrow>
      fs_open fs [out_dir, sanitize_filename EN name, sanitize_filename EN t @ u ''.txt'']
        = fs_open fs [out_dir, sanitize_filename JA name, sanitize_filename JA t @ u ''.txt'']"
  shows "same_up_to_localization out_dir
     (save_post EN repr fs out_dir post_id post title full_content)
     (save_post JA repr fs out_dir post_id post title full_content)"
proof (cases "fanclub_name repr post")
  case (Inl e)
  then show ?thesis
    by (simp add: save_post_def exc_bind_def localization_no_effect)
next
  case (Inr nm)
  from sanitize_value_cases [of nm] show ?thesis
  proof
    assume "\<forall>v. sanitize_value v nm = Inl TypeError"
    then show ?thesis using Inr
      by (simp add: save_post_def exc_bind_def localization_no_effect)
  next
    assume "\<exists>s. nm = JStr s \<and> (\<forall>v. sanitize_value v nm = Inr (sanitize_filename v s))"
    then obtain name where name: "nm = JStr name"
      and nm: "\<And>v. sanitize_value v nm = Inr (sanitize_filename v name)" by auto
    from Inr name have fan: "fanclub_name repr post = Inr (JStr name)" by simp
    note md' = md [OF fan]
    show ?thesis
    proof (cases "fs_makedirs fs [out_dir, sanitize_filename JA name]")
      case (Some e)
      then show ?thesis using Inr nm md'
        by (simp add: save_post_def exc_bind_def localization_no_effect)
    next
      case None
      note made = None md'
      from sanitize_value_cases [of title] show ?thesis
      proof
        assume "\<forall>v. sanitize_value v title = Inl TypeError"
        then show ?thesis using Inr nm made
          by (auto simp: save_post_def exc_bind_def same_up_to_localization_def)
      next
        assume "\<exists>s. title = JStr s \<and> (\<forall>v. sanitize_value v title = Inr (sanitize_filename v s))"
        then obtain t where t: "title = JStr t"
          and st: "\<And>v. sanitize_value v title = Inr (sanitize_filename v t)" by auto
        note op' = op [OF fan t]
        show ?thesis
        proof (cases "fs_open fs [out_dir, sanitize_filename JA name,
              sanitize_filename JA t @ u ''.txt'']")
          case (Some e)
          then show ?thesis using Inr nm made st op'
            by (auto simp: save_post_def exc_bind_def same_up_to_localization_def)
        next
          case None
          obtain c e where w: "write_all (t @ [10])
              [JStr (url_line post_id), JStr rule_lines, full_content] = (c, e)"
            by (cases "write_all (t @ [10]) [JStr (url_line post_id), JStr rule_lines, full_content]")
          have "save_post v repr fs out_dir post_id post title full_content =
             (if encodable t then
                \<lparr>message = (case e of None \<Rightarrow> OkSaved | Some x \<Rightarrow> handle_exc x),
                 made_dir = Some [out_dir, sanitize_filename v name],
                 written = Some ([out_dir, sanitize_filename v name,
                                  sanitize_filename v t @ u ''.txt''], title_label v @ c)\<rparr>
              else
                \<lparr>message = handle_exc UnicodeEncodeError,
                 made_dir = Some [out_dir, sanitize_filename v name],
                 written = Some ([out_dir, sanitize_filename v name,
                                  sanitize_filename v t @ u ''.txt''], [])\<rparr>)" for v
            using Inr nm made st op' None t w
            by (cases v; cases e)
               (simp_all add: save_post_def exc_bind_def write_all_title del: write_all.simps)
          then show ?thesis
            by (auto simp: same_up_to_localization_def)
        qed
      qed
    qed
  qed
qed

text \<open>
  C8, amended. For the same response, identifier, output directory and scope, and on a
  file system that gives the directory and file names of the two variants the same
  answer, the two variants of \<open>scrape_and_save_post_api\<close> print the same message (so they
  classify the post, apply the scope filter and extract the body alike), and what they
  make differs only in the placeholder of the sanitized directory and file names and in
  the label of the title line. The collector is the same text in both files, embedded
  once as \<open>get_all_post_ids\<close>.
\<close>

theorem variants_same_up_to_localization:
  assumes "answers_alike fs out_dir (raw_dir_name repr response) (raw_title response post_id)"
  shows "same_up_to_localization out_dir
     (scrape_and_save_post_api EN repr fs response post_id out_dir scope)
     (scrape_and_save_post_api JA repr fs response post_id out_dir scope)"
proof (cases response)
  case (Raised e)
  then show ?thesis by (simp add: scrape_and_save_post_api_def localization_no_effect)
next
  case (JsonBody data)
  show ?thesis
  proof (cases "py_get data (u ''post'') JNull")
    case (Inl e)
    then show ?thesis using JsonBody
      by (simp add: scrape_and_save_post_api_def localization_no_effect)
  next
    case (Inr post)
    show ?thesis
    proof (cases "py_get post (u ''title'') (JStr (u ''No Title '' @ str_int post_id))")
      case (Inl e)
      then show ?thesis using JsonBody Inr
        by (simp add: scrape_and_save_post_api_def localization_no_effect)
    next
      case title: (Inr title)
      have "same_up_to_localization out_dir
          (save_post EN repr fs out_dir post_id post title full_content)
          (save_post JA repr fs out_dir post_id post title full_content)" for full_content
      proof (rule localization_save_post)
        fix name
        assume "fanclub_name repr post = Inr (JStr name)"
        then have "raw_dir_name repr response = Some name"
          using JsonBody Inr by (simp add: raw_dir_name_def)
        with assms show "fs_makedirs fs [out_dir, sanitize_filename EN name]
            = fs_makedirs fs [out_dir, sanitize_filename JA name]"
          by (simp add: answers_alike_def)
      next
        fix name t
        assume "fanclub_name repr post = Inr (JStr name)" and "title = JStr t"
        then have "raw_dir_name repr response = Some name" "raw_title response post_id = Some t"
          using JsonBody Inr title by (simp_all add: raw_dir_name_def raw_title_def)
        with assms show "fs_open fs [out_dir, sanitize_filename EN name,
              sanitize_filename EN t @ u ''.txt'']
            = fs_open fs [out_dir, sanitize_filename JA name, sanitize_filename JA t @ u ''.txt'']"
          by (simp add: answers_alike_def)
      qed
      then show ?thesis using JsonBody Inr title
        by (auto simp: scrape_and_save_post_api_def extract_and_save_def localization_no_effect
            split: sum.splits option.splits)
    qed
  qed
qed

theorem variants_same_up_to_localization_witness:
  "answers_alike short_names_fs (u ''novels'')
     (raw_dir_name no_repr (JsonBody (JObj [(u ''post'', free_post)])))
     (raw_title (JsonBody (JObj [(u ''post'', free_post)])) 10) \<and>
   same_up_to_localization (u ''novels'')
     (scrape_and_save_post_api EN no_repr short_names_fs
        (JsonBody (JObj [(u ''post'', free_post)])) 10 (u ''novels'') (u ''all''))
     (scrape_and_save_post_api JA no_repr short_names_fs
        (JsonBody (JObj [(u ''post'', free_post)])) 10 (u ''novels'') (u ''all'')) \<and>
   written (scrape_and_save_post_api JA no_repr short_names_fs
        (JsonBody (JObj [(u ''post'', free_post)])) 10 (u ''novels'') (u ''all''))
     = Some ([u ''novels'', u ''Club'' @ [65293] @ u '' X'', u ''Part 1'' @ [65293] @ u ''2.txt''],
          [12479, 12452, 12488, 12523, 58, 32] @ u ''Part 1/2'' @ [10] @
          u ''URL: https://fantia.jp/posts/10'' @ [10] @ replicate 40 61 @ [10, 10] @
          [65, 10, 10, 66])"
proof -
  have names: "raw_dir_name no_repr (JsonBody (JObj [(u ''post'', free_post)])) = Some (u ''Club: X'')"
    "raw_title (JsonBody (JObj [(u ''post'', free_post)])) 10 = Some (u ''Part 1/2'')"
    by (simp_all add: raw_dir_name_def raw_title_def fanclub_name_def exc_bind_def free_post_def
        example_fanclub_def u_def)
  have alike: "answers_alike short_names_fs (u ''novels'') (Some (u ''Club: X''))
      (Some (u ''Part 1/2''))"
    by (simp add: answers_alike_def short_names_fs_def utf8_length_def sanitize_filename_def
        re_sub_class_def invalid_chars_def u_def)
  have "written (scrape_and_save_post_api JA no_repr short_names_fs
        (JsonBody (JObj [(u ''post'', free_post)])) 10 (u ''novels'') (u ''all''))
     = Some ([u ''novels'', u ''Club'' @ [65293] @ u '' X'', u ''Part 1'' @ [65293] @ u ''2.txt''],
          [12479, 12452, 12488, 12523, 58, 32] @ u ''Part 1/2'' @ [10] @
          u ''URL: https://fantia.jp/posts/10'' @ [10] @ replicate 40 61 @ [10, 10] @
          [65, 10, 10, 66])"
    by (simp add: example_eval free_post_def example_fanclub_def short_names_fs_def
        utf8_length_def no_repr_def)
  with variants_same_up_to_localization [of short_names_fs "u ''novels''" no_repr
      "JsonBody (JObj [(u ''post'', free_post)])" 10 "u ''all''"] alike names
  show ?thesis by simp
qed

end
